theory Spec2Isabelle
  imports Complex_Main "HOL-Library.Word"
begin

section \<open>JavaScript values\<close>

text \<open>
  A JavaScript string is a sequence of UTF-16 code units, and \<^verbatim>\<open>length\<close> counts
  code units. String literals of the source are ASCII and are written with \<open>js\<close>.
\<close>

type_synonym code_unit = "16 word"

type_synonym jsstring = "code_unit list"

definition js :: "string \<Rightarrow> jsstring" where
  "js s = map of_char s"

text \<open>
  \<^verbatim>\<open>String.prototype.trim\<close> removes WhiteSpace and LineTerminator code points from both
  ends (ECMA-262): TAB, LF, VT, FF, CR, SP, NBSP, U+1680, U+2000 to U+200A, U+2028,
  U+2029, U+202F, U+205F, U+3000 and U+FEFF. All of them are single code units.
\<close>

definition isWhiteSpace :: "code_unit \<Rightarrow> bool" where
  "isWhiteSpace c \<longleftrightarrow>
     c \<in> set [0x9, 0xA, 0xB, 0xC, 0xD, 0x20, 0xA0, 0x1680, 0x2028, 0x2029, 0x202F, 0x205F,
              0x3000, 0xFEFF]
     \<or> (0x2000 \<le> c \<and> c \<le> 0x200A)"

definition trim :: "jsstring \<Rightarrow> jsstring" where
  "trim s = rev (dropWhile isWhiteSpace (rev (dropWhile isWhiteSpace s)))"

text \<open>Exceptions are values: what a \<^verbatim>\<open>throw\<close> or a rejected promise carries.\<close>

datatype exn = TypeError | RangeError | SyntaxError | Thrown jsstring

text \<open>
  The values \<^verbatim>\<open>JSON.parse\<close> can return, and \<^verbatim>\<open>undefined\<close>, which reading an absent
  property gives. A number is the rational value of its double, or an infinity (an
  overflowing literal); JSON text cannot give NaN. An object lists each
  own property once.
\<close>

datatype jsnum = Fin rat | Inf bool

datatype jsval =
    JUndefined
  | JNull
  | JBool bool
  | JNum jsnum
  | JStr jsstring
  | JArr "jsval list"
  | JObj "(jsstring \<times> jsval) list"

text \<open>\<^verbatim>\<open>!v\<close> is true for undefined, null, false, zero and the empty string.\<close>

fun truthy :: "jsval \<Rightarrow> bool" where
  "truthy JUndefined = False"
| "truthy JNull = False"
| "truthy (JBool b) = b"
| "truthy (JNum n) = (n \<noteq> Fin 0)"
| "truthy (JStr s) = (s \<noteq> [])"
| "truthy (JArr xs) = True"
| "truthy (JObj kvs) = True"

text \<open>
  Reading a property \<^verbatim>\<open>data.k\<close>. On null (and undefined) it throws a TypeError. On an
  object it gives the own property or undefined. The seven names the service reads are
  not properties of the String, Number, Boolean, Array or Object prototypes, so on
  every other value the read gives undefined.
\<close>

fun nullish :: "jsval \<Rightarrow> bool" where
  "nullish JUndefined = True"
| "nullish JNull = True"
| "nullish v = False"

fun readProp :: "jsval \<Rightarrow> jsstring \<Rightarrow> jsval" where
  "readProp (JObj kvs) k = (case map_of kvs k of Some v \<Rightarrow> v | None \<Rightarrow> JUndefined)"
| "readProp v k = JUndefined"

definition getProp :: "jsval \<Rightarrow> jsstring \<Rightarrow> exn + jsval" where
  "getProp data k = (if nullish data then Inl TypeError else Inr (readProp data k))"

section \<open>The location service (services/gemini.service.ts)\<close>

text \<open>
  The interface \<^verbatim>\<open>LocationInfo\<close>. Its fields are declared as strings, and the types are
  erased when the program runs: the object the service builds holds whatever the parsed
  response held, so a field is any value, undefined included.
\<close>

record LocationInfo =
  ianaTimezone :: jsval
  fullName :: jsval
  city :: jsval
  country :: jsval
  countryCode :: jsval
  funFact :: jsval

text \<open>
  The request of \<^verbatim>\<open>generateContent\<close>: the model name, the prompt with the query spliced
  in, the response MIME type and the required properties of the response schema.
\<close>

record request =
  modelName :: jsstring
  contents :: jsstring
  responseMimeType :: jsstring
  required :: "jsstring list"

definition prompt :: "jsstring \<Rightarrow> jsstring" where
  "prompt query =
     js ''Identify the most likely IANA timezone identifier (e.g., 'America/New_York', 'Europe/Paris', 'Asia/Tokyo') for the location query: ''
     @ [0x22] @ query @ [0x22] @ js ''. \<newline>''
     @ js ''      Also provide the official full name of the location (City, Country format), just the city name, just the country name, the 2-letter ISO 3166-1 country code (lowercase), and a very short, 1-sentence interesting fun fact about time or culture in this place.\<newline>''
     @ js ''      If the location is invalid or cannot be determined, return null.''"

definition mkRequest :: "jsstring \<Rightarrow> request" where
  "mkRequest query =
     \<lparr> modelName = js ''gemini-2.5-flash'',
       contents = prompt query,
       responseMimeType = js ''application/json'',
       required = map js [''ianaTimezone'', ''fullName'', ''city'', ''country'',
                          ''countryCode'', ''funFact'', ''valid''] \<rparr>"

text \<open>
  What awaiting \<^verbatim>\<open>generateContent\<close> gives: the promise rejects (network error, HTTP
  error, anything the client library throws), or it resolves to a response whose
  \<^verbatim>\<open>text\<close> is a string or undefined. The remote service and \<^verbatim>\<open>JSON.parse\<close> are the
  environment of the service.
\<close>

datatype reply = Rejected exn | Fulfilled "jsstring option"

record serviceHost =
  generateContent :: "request \<Rightarrow> reply"
  JSON_parse :: "jsstring \<Rightarrow> exn + jsval"

text \<open>\<^verbatim>\<open>response.text || '{}'\<close>: undefined and the empty string are falsy.\<close>

definition textOrEmptyObject :: "jsstring option \<Rightarrow> jsstring" where
  "textOrEmptyObject t = (case t of None \<Rightarrow> js ''{}'' | Some s \<Rightarrow> if s = [] then js ''{}'' else s)"

text \<open>The object literal that \<^verbatim>\<open>resolveLocation\<close> returns, read off the parsed body.\<close>

definition locationFields :: "jsval \<Rightarrow> LocationInfo" where
  "locationFields data =
     \<lparr> ianaTimezone = readProp data (js ''ianaTimezone''),
       fullName = readProp data (js ''fullName''),
       city = readProp data (js ''city''),
       country = readProp data (js ''country''),
       countryCode = readProp data (js ''countryCode''),
       funFact = readProp data (js ''funFact'') \<rparr>"

text \<open>
  The body of the \<^verbatim>\<open>try\<close> block of \<^verbatim>\<open>resolveLocation\<close>, which is reached with a string
  only: the requests it issued, and the exception it threw (\<open>Inl\<close>) or the value it
  returned (\<open>Inr\<close>, \<open>None\<close> for null).
\<close>

definition resolveLocation_try ::
  "serviceHost \<Rightarrow> jsstring \<Rightarrow> request list \<times> (exn + LocationInfo option)" where
  "resolveLocation_try env query =
     ([mkRequest query],
      (case generateContent env (mkRequest query) of
         Rejected e \<Rightarrow> Inl e
       | Fulfilled text \<Rightarrow>
           (case JSON_parse env (textOrEmptyObject text) of
              Inl e \<Rightarrow> Inl e
            | Inr data \<Rightarrow>
                (case getProp data (js ''valid'') of
                   Inl e \<Rightarrow> Inl e
                 | Inr valid \<Rightarrow>
                     if \<not> truthy valid then Inr None
                     else Inr (Some (locationFields data))))))"

text \<open>
  \<^verbatim>\<open>resolveLocation\<close>: the guard on the query, then the \<^verbatim>\<open>try\<close> block, whose
  \<^verbatim>\<open>catch\<close> logs the exception and returns null. The parameter is declared a string;
  the component passes the query signal, which can hold any value (see
  \<open>resolveSource_settle\<close>). A falsy value stops at \<^verbatim>\<open>!query\<close>. On a truthy value that is
  not a string, \<^verbatim>\<open>query.trim\<close> is not a function and the call throws a TypeError in the
  guard, outside the \<^verbatim>\<open>try\<close> block: the promise rejects (\<open>Inl\<close>).
\<close>

definition resolveLocation ::
  "serviceHost \<Rightarrow> jsval \<Rightarrow> request list \<times> (exn + LocationInfo option)" where
  "resolveLocation env query =
     (if \<not> truthy query then ([], Inr None)
      else case query of
             JStr s \<Rightarrow>
               if length (trim s) < 2 then ([], Inr None)
               else (case resolveLocation_try env s of
                       (calls, Inl e) \<Rightarrow> (calls, Inr None)
                     | (calls, Inr r) \<Rightarrow> (calls, Inr r))
           | _ \<Rightarrow> ([], Inl TypeError))"

section \<open>Numbers and dates\<close>

text \<open>
  A Number that is not NaN is the rational value of its double; NaN is \<open>None\<close>. The
  arithmetic operators round their exact result to the nearest double, ties to the even
  significand (IEEE 754 binary64, 53 significant bits). \<open>fl\<close> is that rounding on the
  range of normal doubles; the values here are time values and quotients of them, far
  from overflow and underflow.
\<close>

fun bitLength :: "nat \<Rightarrow> nat" where
  "bitLength n = (if n = 0 then 0 else Suc (bitLength (n div 2)))"

text \<open>The binary exponent \<open>\<lfloor>log\<^sub>2 x\<rfloor>\<close> of a positive rational.\<close>

definition exponent :: "rat \<Rightarrow> int" where
  "exponent x =
     (if 1 \<le> x then int (bitLength (nat \<lfloor>x\<rfloor>)) - 1
      else - int (bitLength (nat (\<lceil>1 / x\<rceil> - 1))))"

definition roundHalfEven :: "rat \<Rightarrow> int" where
  "roundHalfEven m =
     (let f = \<lfloor>m\<rfloor>; d = m - of_int f
      in if d < 1 / 2 then f else if 1 / 2 < d then f + 1 else if even f then f else f + 1)"

definition fl :: "rat \<Rightarrow> rat" where
  "fl x =
     (if x = 0 then 0
      else let a = \<bar>x\<bar>; u = 2 powi (exponent a - 52); r = of_int (roundHalfEven (a / u)) * u
           in if x < 0 then - r else r)"

type_synonym number = "rat option"

definition num_sub :: "number \<Rightarrow> number \<Rightarrow> number" where
  "num_sub a b = (case (a, b) of (Some x, Some y) \<Rightarrow> Some (fl (x - y)) | _ \<Rightarrow> None)"

definition num_add :: "number \<Rightarrow> number \<Rightarrow> number" where
  "num_add a b = (case (a, b) of (Some x, Some y) \<Rightarrow> Some (fl (x + y)) | _ \<Rightarrow> None)"

definition num_div :: "number \<Rightarrow> rat \<Rightarrow> number" where
  "num_div a y = (case a of Some x \<Rightarrow> Some (fl (x / y)) | None \<Rightarrow> None)"

text \<open>\<^verbatim>\<open>a !== b\<close> on Numbers: NaN is unequal to everything, itself included.\<close>

definition strictNotEqual :: "number \<Rightarrow> number \<Rightarrow> bool" where
  "strictNotEqual a b = (case (a, b) of (Some x, Some y) \<Rightarrow> x \<noteq> y | _ \<Rightarrow> True)"

text \<open>
  A Date holds a time value, an integral number of milliseconds since the epoch of
  magnitude at most 8.64e15, or NaN (an invalid Date, \<open>None\<close>). \<open>TimeClip\<close> is what
  \<^verbatim>\<open>new Date(number)\<close> stores.
\<close>

type_synonym date = "int option"

definition toInteger :: "rat \<Rightarrow> int" where
  "toInteger x = (if 0 \<le> x then \<lfloor>x\<rfloor> else \<lceil>x\<rceil>)"

definition TimeClip :: "number \<Rightarrow> date" where
  "TimeClip v =
     (case v of None \<Rightarrow> None
      | Some x \<Rightarrow> if 8640000000000000 < \<bar>x\<bar> then None else Some (toInteger x))"

definition getTime :: "date \<Rightarrow> number" where
  "getTime d = map_option of_int d"

text \<open>The decimal digits of a natural number.\<close>

fun decimal :: "nat \<Rightarrow> jsstring" where
  "decimal n = (if n < 10 then [of_nat (48 + n)] else decimal (n div 10) @ [of_nat (48 + n mod 10)])"

text \<open>
  \<^verbatim>\<open>x.toFixed(1)\<close> (ECMA-262, Number.prototype.toFixed with one fraction digit, for
  \<open>\<bar>x\<bar> < 10\<^sup>2\<^sup>1\<close>): the sign is split off, \<open>n\<close> is the integer for which \<open>n / 10\<close> is
  nearest to \<open>\<bar>x\<bar>\<close>, the larger one of two; its digits are printed with a point before
  the last one, and a leading zero when there is one digit only. \<open>tenths\<close> is that \<open>n\<close>.
\<close>

definition tenths :: "rat \<Rightarrow> nat" where
  "tenths x = nat \<lfloor>\<bar>x\<bar> * 10 + 1 / 2\<rfloor>"

definition toFixed1 :: "rat \<Rightarrow> jsstring" where
  "toFixed1 x =
     (if x < 0 then js ''-'' else []) @ decimal (tenths x div 10) @ js ''.'' @ decimal (tenths x mod 10)"

definition number_toFixed1 :: "number \<Rightarrow> jsstring" where
  "number_toFixed1 v = (case v of None \<Rightarrow> js ''NaN'' | Some x \<Rightarrow> toFixed1 x)"

text \<open>
  \<^verbatim>\<open>s.split(sep)\<close> for a separator of one code unit: the pieces between the
  separators, at least one piece.
\<close>

fun splitStr :: "code_unit \<Rightarrow> jsstring \<Rightarrow> jsstring list" where
  "splitStr sep [] = [[]]"
| "splitStr sep (c # cs) =
     (if c = sep then [] # splitStr sep cs
      else (case splitStr sep cs of [] \<Rightarrow> [[c]] | p # ps \<Rightarrow> (c # p) # ps))"

section \<open>The component (app.component.ts)\<close>

text \<open>
  The signals of \<^verbatim>\<open>AppComponent\<close>. The two query signals are declared as strings and
  receive \<^verbatim>\<open>result.fullName\<close>, which is any value.
\<close>

record AppState =
  sourceQuery :: jsval
  targetQuery :: jsval
  sourceLocation :: "LocationInfo option"
  targetLocation :: "LocationInfo option"
  isLoadingSource :: bool
  isLoadingTarget :: bool
  selectedDate :: jsstring
  error :: "jsstring option"

text \<open>
  The clock and internationalisation functions of the engine, as the component calls
  them. The current instant \<^verbatim>\<open>new Date()\<close> is an argument \<open>now\<close> of the operations.
  The time zone option \<open>tz\<close> is the \<^verbatim>\<open>ianaTimezone\<close> field as it is, any value: the
  engine takes undefined as the local zone and converts every other value to a string.
  \<^item> \<open>formatToParts tz t\<close>: \<^verbatim>\<open>new Intl.DateTimeFormat('en-US', {timeZone: tz, year:
    'numeric', month: '2-digit', day: '2-digit', hour: '2-digit', minute: '2-digit',
    hour12: false}).formatToParts(t)\<close>, the parts as pairs of type and value; the
    constructor throws a RangeError on a time zone it does not know.
  \<^item> \<open>toLocaleString tz t\<close>: \<^verbatim>\<open>t.toLocaleString('en-US', {timeZone: tz, hour12: false})\<close>.
  \<^item> \<open>ToString v\<close>: the string a template literal prints for a value that is not a
    string.
  \<^item> \<open>Date_parse s\<close>: the time value \<^verbatim>\<open>new Date(s)\<close> parses from a string, NaN when it
    cannot.
  \<^item> \<open>dateTimeFormat t\<close>: the formatter of \<^verbatim>\<open>formatDate\<close> on a valid time value.
  \<^item> \<open>localDate t\<close>: the day of the month of a valid time value in the local zone.
\<close>

record clockHost =
  formatToParts :: "jsval \<Rightarrow> int \<Rightarrow> exn + (jsstring \<times> jsstring) list"
  toLocaleString :: "jsval \<Rightarrow> int \<Rightarrow> exn + jsstring"
  ToString :: "jsval \<Rightarrow> jsstring"
  Date_parse :: "jsstring \<Rightarrow> int option"
  dateTimeFormat :: "int \<Rightarrow> jsstring"
  localDate :: "int \<Rightarrow> nat"

text \<open>\<^verbatim>\<open>new Date(s)\<close> for a string: the parsed time value, clipped.\<close>

definition newDate :: "clockHost \<Rightarrow> jsstring \<Rightarrow> date" where
  "newDate env s = TimeClip (map_option of_int (Date_parse env s))"

text \<open>\<^verbatim>\<open>d.getDate()\<close>: the local day of the month, NaN for an invalid Date.\<close>

definition getDate :: "clockHost \<Rightarrow> date \<Rightarrow> number" where
  "getDate env d = map_option (\<lambda>t. of_nat (localDate env t)) d"

text \<open>
  \<^verbatim>\<open>formatDate\<close>: \<^verbatim>\<open>Intl.DateTimeFormat.prototype.format\<close> throws a RangeError on an
  invalid Date (ECMA-402).
\<close>

definition formatDate :: "clockHost \<Rightarrow> date \<Rightarrow> exn + jsstring" where
  "formatDate env d = (case d of None \<Rightarrow> Inl RangeError | Some t \<Rightarrow> Inr (dateTimeFormat env t))"

text \<open>
  \<^verbatim>\<open>getPart\<close> of \<^verbatim>\<open>updateTimeForSource\<close>: the value of the first part of a type, or
  undefined; a template literal prints undefined as the word.
\<close>

definition getPart :: "(jsstring \<times> jsstring) list \<Rightarrow> jsstring \<Rightarrow> jsstring option" where
  "getPart parts ty = map_option snd (find (\<lambda>p. fst p = ty) parts)"

definition interpolate :: "jsstring option \<Rightarrow> jsstring" where
  "interpolate v = (case v of None \<Rightarrow> js ''undefined'' | Some s \<Rightarrow> s)"

definition isoLocal :: "(jsstring \<times> jsstring) list \<Rightarrow> jsstring" where
  "isoLocal parts =
     interpolate (getPart parts (js ''year'')) @ js ''-'' @
     interpolate (getPart parts (js ''month'')) @ js ''-'' @
     interpolate (getPart parts (js ''day'')) @ js ''T'' @
     interpolate (getPart parts (js ''hour'')) @ js '':'' @
     interpolate (getPart parts (js ''minute''))"

text \<open>
  \<^verbatim>\<open>updateTimeForSource\<close>: the \<^verbatim>\<open>catch\<close> logs a warning and leaves the state as it is.
\<close>

definition updateTimeForSource :: "clockHost \<Rightarrow> int \<Rightarrow> jsval \<Rightarrow> AppState \<Rightarrow> AppState" where
  "updateTimeForSource env now timeZone st =
     (case formatToParts env timeZone now of
        Inl e \<Rightarrow> st
      | Inr parts \<Rightarrow> st\<lparr>selectedDate := isoLocal parts\<rparr>)"

text \<open>
  \<^verbatim>\<open>resolveSource\<close> runs in two steps: up to the \<^verbatim>\<open>await\<close>, and from the settled promise
  (a rejection \<open>Inl\<close>, null, or a location object) to the end of the \<^verbatim>\<open>finally\<close> block,
  at the instant \<open>now\<close>. The not-found message splices the query into a template
  literal.
\<close>

definition resolveSource_begin :: "jsval \<Rightarrow> AppState \<Rightarrow> AppState" where
  "resolveSource_begin query st = st\<lparr>isLoadingSource := True, error := None, sourceQuery := query\<rparr>"

definition templateText :: "clockHost \<Rightarrow> jsval \<Rightarrow> jsstring" where
  "templateText env v = (case v of JStr s \<Rightarrow> s | _ \<Rightarrow> ToString env v)"

definition notFound :: "clockHost \<Rightarrow> jsval \<Rightarrow> jsstring" where
  "notFound env query = js ''Could not find location: '' @ templateText env query"

definition resolveSource_settle ::
  "clockHost \<Rightarrow> int \<Rightarrow> jsval \<Rightarrow> exn + LocationInfo option \<Rightarrow> AppState \<Rightarrow> AppState" where
  "resolveSource_settle env now query res st =
     (case res of
        Inr (Some result) \<Rightarrow>
          updateTimeForSource env now (ianaTimezone result)
            (st\<lparr>sourceLocation := Some result, sourceQuery := fullName result\<rparr>)
      | Inr None \<Rightarrow> st\<lparr>error := Some (notFound env query)\<rparr>
      | Inl e \<Rightarrow> st\<lparr>error := Some (js ''Failed to resolve source location.'')\<rparr>)
     \<lparr>isLoadingSource := False\<rparr>"

text \<open>
  The whole call, when nothing else runs between the two steps. The argument is \<open>None\<close>
  when the caller passes none; the default, the source query signal, also stands in
  for an argument that is undefined. The result is the new state and the requests
  issued.
\<close>

definition resolveSource ::
  "serviceHost \<Rightarrow> clockHost \<Rightarrow> int \<Rightarrow> jsval option \<Rightarrow> AppState \<Rightarrow> AppState \<times> request list" where
  "resolveSource svc env now arg st =
     (let query = (case arg of None \<Rightarrow> sourceQuery st | Some JUndefined \<Rightarrow> sourceQuery st | Some q \<Rightarrow> q)
      in if \<not> truthy query then (st, [])
         else case resolveLocation svc query of
                (calls, res) \<Rightarrow>
                  (resolveSource_settle env now query res (resolveSource_begin query st), calls))"

definition resolveTarget_begin :: "jsval \<Rightarrow> AppState \<Rightarrow> AppState" where
  "resolveTarget_begin query st = st\<lparr>isLoadingTarget := True, error := None, targetQuery := query\<rparr>"

definition resolveTarget_settle ::
  "clockHost \<Rightarrow> jsval \<Rightarrow> exn + LocationInfo option \<Rightarrow> AppState \<Rightarrow> AppState" where
  "resolveTarget_settle env query res st =
     (case res of
        Inr (Some result) \<Rightarrow> st\<lparr>targetLocation := Some result, targetQuery := fullName result\<rparr>
      | Inr None \<Rightarrow> st\<lparr>error := Some (notFound env query)\<rparr>
      | Inl e \<Rightarrow> st\<lparr>error := Some (js ''Failed to resolve target location.'')\<rparr>)
     \<lparr>isLoadingTarget := False\<rparr>"

definition resolveTarget ::
  "serviceHost \<Rightarrow> clockHost \<Rightarrow> jsval option \<Rightarrow> AppState \<Rightarrow> AppState \<times> request list" where
  "resolveTarget svc env arg st =
     (let query = (case arg of None \<Rightarrow> targetQuery st | Some JUndefined \<Rightarrow> targetQuery st | Some q \<Rightarrow> q)
      in if \<not> truthy query then (st, [])
         else case resolveLocation svc query of
                (calls, res) \<Rightarrow>
                  (resolveTarget_settle env query res (resolveTarget_begin query st), calls))"

text \<open>\<^verbatim>\<open>swapLocations\<close>: four reads, four writes, then the time of the new source.\<close>

definition swapLocations :: "clockHost \<Rightarrow> int \<Rightarrow> AppState \<Rightarrow> AppState" where
  "swapLocations env now st =
     (let sLoc = sourceLocation st; tLoc = targetLocation st;
          sQ = sourceQuery st; tQ = targetQuery st;
          st1 = st\<lparr>sourceLocation := tLoc\<rparr>;
          st2 = st1\<lparr>targetLocation := sLoc\<rparr>;
          st3 = st2\<lparr>sourceQuery := tQ\<rparr>;
          st4 = st3\<lparr>targetQuery := sQ\<rparr>
      in case tLoc of
           None \<Rightarrow> st4
         | Some t \<Rightarrow> updateTimeForSource env now (ianaTimezone t) st4)"

text \<open>The value of the computed signal \<^verbatim>\<open>convertedResult\<close>.\<close>

record ConversionResult =
  sourceTimeDisplay :: jsstring
  targetTimeDisplay :: jsstring
  diffHours :: jsstring
  isNextDay :: bool

text \<open>
  The offset difference of step 3: the two renderings of \<open>now\<close> parsed back as Dates,
  and their time values subtracted.
\<close>

definition diffMs :: "clockHost \<Rightarrow> jsstring \<Rightarrow> jsstring \<Rightarrow> number" where
  "diffMs env srcStr tgtStr = num_sub (getTime (newDate env tgtStr)) (getTime (newDate env srcStr))"

text \<open>
  The body of the \<^verbatim>\<open>try\<close> block. The destructured \<^verbatim>\<open>year, month, day, hours, minutes\<close>
  are never read, and \<^verbatim>\<open>split\<close> and \<^verbatim>\<open>Number\<close> on a string do not throw; what is left
  of the first three statements is the TypeError of \<^verbatim>\<open>timePart.split\<close> when the date
  string has no \<^verbatim>\<open>T\<close>, so that \<^verbatim>\<open>timePart\<close> is undefined.
\<close>

definition convert_try ::
  "clockHost \<Rightarrow> int \<Rightarrow> LocationInfo \<Rightarrow> LocationInfo \<Rightarrow> jsstring \<Rightarrow> exn + ConversionResult" where
  "convert_try env now src tgt dateStr =
     (case splitStr 0x54 dateStr of
        datePart # timePart # rest \<Rightarrow>
          (case toLocaleString env (ianaTimezone src) now of
             Inl e \<Rightarrow> Inl e
           | Inr srcStr \<Rightarrow>
          (case toLocaleString env (ianaTimezone tgt) now of
             Inl e \<Rightarrow> Inl e
           | Inr tgtStr \<Rightarrow>
               (let d = diffMs env srcStr tgtStr;
                    inputWallTime = newDate env dateStr;
                    targetWallTime = TimeClip (num_add (getTime inputWallTime) d)
                in case formatDate env inputWallTime of
                     Inl e \<Rightarrow> Inl e
                   | Inr sourceDisplay \<Rightarrow>
                  (case formatDate env targetWallTime of
                     Inl e \<Rightarrow> Inl e
                   | Inr targetDisplay \<Rightarrow>
                       Inr \<lparr> sourceTimeDisplay = sourceDisplay,
                             targetTimeDisplay = targetDisplay,
                             diffHours = number_toFixed1 (num_div d (1000 * 60 * 60)),
                             isNextDay = strictNotEqual (getDate env targetWallTime)
                                                        (getDate env inputWallTime) \<rparr>))))
      | _ \<Rightarrow> Inl TypeError)"

definition convertedResult :: "clockHost \<Rightarrow> int \<Rightarrow> AppState \<Rightarrow> ConversionResult option" where
  "convertedResult env now st =
     (case (sourceLocation st, targetLocation st) of
        (Some src, Some tgt) \<Rightarrow>
          if selectedDate st = [] then None
          else (case convert_try env now src tgt (selectedDate st) of
                  Inl e \<Rightarrow> None
                | Inr r \<Rightarrow> Some r)
      | _ \<Rightarrow> None)"

section \<open>The words of the specification\<close>

text \<open>
  The schema of the response: an object whose six location fields are strings and
  whose \<^verbatim>\<open>valid\<close> is a boolean.
\<close>

fun isString :: "jsval \<Rightarrow> bool" where
  "isString (JStr s) = True"
| "isString v = False"

fun isBoolean :: "jsval \<Rightarrow> bool" where
  "isBoolean (JBool b) = True"
| "isBoolean v = False"

fun isObject :: "jsval \<Rightarrow> bool" where
  "isObject (JObj kvs) = True"
| "isObject v = False"

definition conformsToSchema :: "jsval \<Rightarrow> bool" where
  "conformsToSchema data \<longleftrightarrow>
     isObject data \<and>
     list_all (\<lambda>k. isString (readProp data (js k)))
       [''ianaTimezone'', ''fullName'', ''city'', ''country'', ''countryCode'', ''funFact''] \<and>
     isBoolean (readProp data (js ''valid''))"

text \<open>
  The remote call fails for any reason, in the words of the specification: the promise
  rejects, the response cannot be parsed, or it does not conform to the schema.
\<close>

definition remoteCallFails :: "serviceHost \<Rightarrow> jsstring \<Rightarrow> bool" where
  "remoteCallFails svc query =
     (case generateContent svc (mkRequest query) of
        Rejected e \<Rightarrow> True
      | Fulfilled text \<Rightarrow>
          (case JSON_parse svc (textOrEmptyObject text) of
             Inl e \<Rightarrow> True
           | Inr data \<Rightarrow> \<not> conformsToSchema data))"

text \<open>
  A transport-level failure of the remote call: the promise rejects (network error,
  rejection, an error of the client library), \<^verbatim>\<open>JSON.parse\<close> throws, or the read of
  \<^verbatim>\<open>valid\<close> throws because the body is null.
\<close>

definition transportFails :: "serviceHost \<Rightarrow> jsstring \<Rightarrow> bool" where
  "transportFails svc query =
     (case generateContent svc (mkRequest query) of
        Rejected e \<Rightarrow> True
      | Fulfilled text \<Rightarrow>
          (case JSON_parse svc (textOrEmptyObject text) of
             Inl e \<Rightarrow> True
           | Inr data \<Rightarrow> data = JNull))"

definition isDigit :: "code_unit \<Rightarrow> bool" where
  "isDigit c \<longleftrightarrow> 0x30 \<le> c \<and> c \<le> 0x39"

text \<open>
  The form \<^verbatim>\<open>YYYY-MM-DDTHH:mm\<close> of the date string: sixteen code units, digits but for
  the two hyphens, the \<^verbatim>\<open>T\<close> and the colon.
\<close>

definition wellFormedDate :: "jsstring \<Rightarrow> bool" where
  "wellFormedDate s \<longleftrightarrow>
     length s = 16 \<and>
     list_all (\<lambda>i. isDigit (s ! i)) [0, 1, 2, 3, 5, 6, 8, 9, 11, 12, 14, 15] \<and>
     s ! 4 = 0x2D \<and> s ! 7 = 0x2D \<and> s ! 10 = 0x54 \<and> s ! 13 = 0x3A"

text \<open>An exception is thrown during the conversion: the \<^verbatim>\<open>try\<close> block ends in one.\<close>

definition conversionThrows :: "clockHost \<Rightarrow> int \<Rightarrow> AppState \<Rightarrow> bool" where
  "conversionThrows env now st =
     (case (sourceLocation st, targetLocation st) of
        (Some src, Some tgt) \<Rightarrow> isl (convert_try env now src tgt (selectedDate st))
      | _ \<Rightarrow> False)"

text \<open>
  The offset differential at the current instant: the difference of the two renderings
  of \<open>now\<close>, when both zones render. The computed target wall-clock value: the input
  wall-clock value moved by that differential.
\<close>

definition offsetMs ::
  "clockHost \<Rightarrow> int \<Rightarrow> LocationInfo \<Rightarrow> LocationInfo \<Rightarrow> number" where
  "offsetMs env now src tgt =
     (case (toLocaleString env (ianaTimezone src) now, toLocaleString env (ianaTimezone tgt) now) of
        (Inr srcStr, Inr tgtStr) \<Rightarrow> diffMs env srcStr tgtStr
      | _ \<Rightarrow> None)"

definition targetWallTime ::
  "clockHost \<Rightarrow> int \<Rightarrow> LocationInfo \<Rightarrow> LocationInfo \<Rightarrow> jsstring \<Rightarrow> date" where
  "targetWallTime env now src tgt dateStr =
     TimeClip (num_add (getTime (newDate env dateStr)) (offsetMs env now src tgt))"

text \<open>
  The number a decimal string with one fraction digit denotes: an optional minus sign,
  digits, a point and one digit.
\<close>

fun digitsValue :: "nat \<Rightarrow> jsstring \<Rightarrow> nat option" where
  "digitsValue acc [] = Some acc"
| "digitsValue acc (c # cs) =
     (if isDigit c then digitsValue (10 * acc + (unat c - 48)) cs else None)"

definition readFixed1 :: "jsstring \<Rightarrow> rat option" where
  "readFixed1 s =
     (let neg = (s \<noteq> [] \<and> hd s = 0x2D); body = (if neg then tl s else s)
      in case splitStr 0x2E body of
           [a, [b]] \<Rightarrow>
             (if a = [] then None
              else case (digitsValue 0 a, digitsValue 0 [b]) of
                     (Some i, Some f) \<Rightarrow>
                       Some ((if neg then - 1 else 1) * (of_nat i + of_nat f / 10))
                   | _ \<Rightarrow> None)
         | _ \<Rightarrow> None)"

section \<open>Sample environments\<close>

text \<open>
  \<^verbatim>\<open>JSON.parse\<close> at the bodies the examples use; the last line stands for a body that
  is not JSON.
\<close>

definition sampleParse :: "jsstring \<Rightarrow> exn + jsval" where
  \<open>sampleParse t =
     (if t = js ''{}'' then Inr (JObj [])
      else if t = js ''null'' then Inr JNull
      else if t = js ''{"valid":true}'' then Inr (JObj [(js ''valid'', JBool True)])
      else if t = js ''{"valid":false}'' then Inr (JObj [(js ''valid'', JBool False)])
      else if t = js ''{"valid":0,"city":"Paris"}'' then
        Inr (JObj [(js ''valid'', JNum (Fin 0)), (js ''city'', JStr (js ''Paris''))])
      else if t = js ''{"valid":true,"fullName":33}'' then
        Inr (JObj [(js ''valid'', JBool True), (js ''fullName'', JNum (Fin 33))])
      else if t = js ''{"valid":true,"fullName":"Atlantis"}'' then
        Inr (JObj [(js ''valid'', JBool True), (js ''fullName'', JStr (js ''Atlantis''))])
      else if t = js ''{"valid":"yes","ianaTimezone":"Europe/Paris","fullName":"Paris, France","city":"Paris","country":"France","countryCode":33}'' then
        Inr (JObj [(js ''valid'', JStr (js ''yes'')),
                   (js ''ianaTimezone'', JStr (js ''Europe/Paris'')),
                   (js ''fullName'', JStr (js ''Paris, France'')),
                   (js ''city'', JStr (js ''Paris'')),
                   (js ''country'', JStr (js ''France'')),
                   (js ''countryCode'', JNum (Fin 33))])
      else Inl SyntaxError)\<close>

text \<open>A service whose every request is answered with the same body, and one that is unreachable.\<close>

definition replying :: "jsstring option \<Rightarrow> serviceHost" where
  "replying body = \<lparr> generateContent = (\<lambda>r. Fulfilled body), JSON_parse = sampleParse \<rparr>"

definition unreachable :: serviceHost where
  "unreachable =
     \<lparr> generateContent = (\<lambda>r. Rejected (Thrown (js ''Failed to fetch''))), JSON_parse = sampleParse \<rparr>"

text \<open>
  The engine at the instant 2024-06-15T13:00:00Z, on a host whose local zone is UTC:
  the renderings of that instant in two zones and, for an undefined zone option, in
  the local zone (every other zone is unknown to it); the parser at the strings of
  the examples, among them the forms of \<^verbatim>\<open>toISOString\<close> and \<^verbatim>\<open>toUTCString\<close>, which
  ECMA-262 requires the parser to read; the formatter at their time values; and
  ToString at undefined, null, the booleans and objects.
\<close>

definition sampleNow :: int where
  "sampleNow = 1718456400000"

definition sampleParts :: "jsstring \<Rightarrow> (jsstring \<times> jsstring) list" where
  "sampleParts hour =
     [(js ''month'', js ''06''), (js ''literal'', js ''/''), (js ''day'', js ''15''),
      (js ''literal'', js ''/''), (js ''year'', js ''2024''), (js ''literal'', js '', ''),
      (js ''hour'', hour), (js ''literal'', js '':''), (js ''minute'', js ''00'')]"

definition sampleDateParse :: "jsstring \<Rightarrow> int option" where
  "sampleDateParse s =
     (if s = js ''6/15/2024, 14:00:00'' \<or> s = js ''2024-06-15T14:00'' \<or>
         s = js ''2024-06-15T14:00:00.000Z'' \<or> s = js ''Sat, 15 Jun 2024 14:00:00 GMT''
      then Some 1718460000000
      else if s = js ''6/15/2024, 09:00:00'' \<or> s = js ''2024-06-15T09:00'' then Some 1718442000000
      else if s = js ''2024-06-15T22:00'' then Some 1718488800000
      else None)"

definition sampleFormat :: "int \<Rightarrow> jsstring" where
  "sampleFormat t =
     (if t = 1718442000000 then js ''Sat, Jun 15, 9:00 AM''
      else if t = 1718460000000 then js ''Sat, Jun 15, 2:00 PM''
      else if t = 1718488800000 then js ''Sat, Jun 15, 10:00 PM''
      else if t = 1718506800000 then js ''Sun, Jun 16, 3:00 AM''
      else [])"

definition sampleToString :: "jsval \<Rightarrow> jsstring" where
  "sampleToString v =
     (case v of
        JUndefined \<Rightarrow> js ''undefined''
      | JNull \<Rightarrow> js ''null''
      | JBool b \<Rightarrow> if b then js ''true'' else js ''false''
      | _ \<Rightarrow> js ''[object Object]'')"

definition sampleClock :: clockHost where
  "sampleClock =
     \<lparr> formatToParts = (\<lambda>tz t.
         if tz = JStr (js ''Europe/London'') then Inr (sampleParts (js ''14''))
         else if tz = JStr (js ''America/New_York'') then Inr (sampleParts (js ''09''))
         else if tz = JUndefined then Inr (sampleParts (js ''13''))
         else Inl RangeError),
       toLocaleString = (\<lambda>tz t.
         if tz = JStr (js ''Europe/London'') then Inr (js ''6/15/2024, 14:00:00'')
         else if tz = JStr (js ''America/New_York'') then Inr (js ''6/15/2024, 09:00:00'')
         else if tz = JUndefined then Inr (js ''6/15/2024, 13:00:00'')
         else Inl RangeError),
       ToString = sampleToString,
       Date_parse = sampleDateParse,
       dateTimeFormat = sampleFormat,
       localDate = (\<lambda>t. nat (t div 86400000 - 19875) + 1) \<rparr>"

definition london :: LocationInfo where
  "london =
     \<lparr> ianaTimezone = JStr (js ''Europe/London''), fullName = JStr (js ''London, United Kingdom''),
       city = JStr (js ''London''), country = JStr (js ''United Kingdom''), countryCode = JStr (js ''gb''),
       funFact = JStr (js ''Greenwich lies on the prime meridian.'') \<rparr>"

definition newYork :: LocationInfo where
  "newYork =
     \<lparr> ianaTimezone = JStr (js ''America/New_York''), fullName = JStr (js ''New York, United States''),
       city = JStr (js ''New York''), country = JStr (js ''United States''), countryCode = JStr (js ''us''),
       funFact = JStr (js ''The ball drop in Times Square dates from 1907.'') \<rparr>"

definition phobos :: LocationInfo where
  "phobos =
     \<lparr> ianaTimezone = JStr (js ''Mars/Phobos''), fullName = JStr (js ''Phobos, Mars''),
       city = JStr (js ''Phobos''), country = JStr (js ''Mars''), countryCode = JStr (js ''zz''),
       funFact = JStr (js ''A day on Phobos lasts under eight hours.'') \<rparr>"

definition sampleState :: AppState where
  "sampleState =
     \<lparr> sourceQuery = JStr (js ''London, United Kingdom''),
       targetQuery = JStr (js ''New York, United States''),
       sourceLocation = Some london, targetLocation = Some newYork,
       isLoadingSource = False, isLoadingTarget = False,
       selectedDate = js ''2024-06-15T14:00'', error = None \<rparr>"

definition sampleConversion :: ConversionResult where
  "sampleConversion =
     \<lparr> sourceTimeDisplay = js ''Sat, Jun 15, 2:00 PM'',
       targetTimeDisplay = js ''Sat, Jun 15, 9:00 AM'',
       diffHours = js ''-5.0'', isNextDay = False \<rparr>"

definition sampleReverse :: ConversionResult where
  "sampleReverse =
     \<lparr> sourceTimeDisplay = js ''Sat, Jun 15, 9:00 AM'',
       targetTimeDisplay = js ''Sat, Jun 15, 2:00 PM'',
       diffHours = js ''5.0'', isNextDay = False \<rparr>"

definition lateState :: AppState where
  "lateState =
     \<lparr> sourceQuery = JStr (js ''New York, United States''),
       targetQuery = JStr (js ''London, United Kingdom''),
       sourceLocation = Some newYork, targetLocation = Some london,
       isLoadingSource = False, isLoadingTarget = False,
       selectedDate = js ''2024-06-15T22:00'', error = None \<rparr>"

definition lateConversion :: ConversionResult where
  "lateConversion =
     \<lparr> sourceTimeDisplay = js ''Sat, Jun 15, 10:00 PM'',
       targetTimeDisplay = js ''Sun, Jun 16, 3:00 AM'',
       diffHours = js ''5.0'', isNextDay = True \<rparr>"

section \<open>Properties\<close>

declare bitLength.simps [simp del] decimal.simps [simp del]

subsection \<open>Decimal strings\<close>

lemma decimal_small: "n < 10 \<Longrightarrow> decimal n = [of_nat (48 + n)]"
  by (simp add: decimal.simps)

lemma digit_unit: "n < 10 \<Longrightarrow> isDigit (of_nat (48 + n)) \<and> unat (of_nat (48 + n) :: code_unit) = 48 + n"
proof -
  assume n: "n < 10"
  define w :: code_unit where "w = of_nat (48 + n)"
  have "unat w = (48 + n) mod 2 ^ LENGTH(16)"
    unfolding w_def by (rule unat_of_nat)
  with n have u: "unat w = 48 + n"
    by simp
  have "unat (0x30 :: code_unit) \<le> unat w" and "unat w \<le> unat (0x39 :: code_unit)"
    using n by (simp_all add: u)
  then have "0x30 \<le> w \<and> w \<le> 0x39"
    by (simp only: word_le_nat_alt)
  then show ?thesis using u unfolding w_def isDigit_def by blast
qed

lemma digitsValue_snoc:
  "digitsValue acc (xs @ [c]) =
     (case digitsValue acc xs of None \<Rightarrow> None
      | Some v \<Rightarrow> if isDigit c then Some (10 * v + (unat c - 48)) else None)"
  by (induction xs arbitrary: acc) auto

lemma digitsValue_decimal: "digitsValue 0 (decimal n) = Some n"
proof (induction n rule: decimal.induct)
  case (1 n)
  show ?case
  proof (cases "n < 10")
    case True
    then show ?thesis using digit_unit [of n] by (simp add: decimal_small)
  next
    case False
    have m: "n mod 10 < 10" by simp
    from False have "decimal n = decimal (n div 10) @ [of_nat (48 + n mod 10)]"
      by (subst decimal.simps) simp
    then show ?thesis
      using 1 [OF False] digit_unit [OF m] by (simp add: digitsValue_snoc)
  qed
qed

lemma decimal_digits: "c \<in> set (decimal n) \<Longrightarrow> isDigit c"
proof (induction n rule: decimal.induct)
  case (1 n)
  show ?case
  proof (cases "n < 10")
    case True
    then show ?thesis using 1(2) digit_unit [of n] by (simp add: decimal_small)
  next
    case False
    have m: "n mod 10 < 10" by simp
    from False have "decimal n = decimal (n div 10) @ [of_nat (48 + n mod 10)]"
      by (subst decimal.simps) simp
    then show ?thesis
      using 1(1) [OF False] 1(2) digit_unit [OF m] by auto
  qed
qed

lemma decimal_nonempty: "decimal n \<noteq> []"
  by (subst decimal.simps) simp

lemma splitStr_none: "sep \<notin> set s \<Longrightarrow> splitStr sep s = [s]"
  by (induction s) auto

lemma splitStr_at: "sep \<notin> set a \<Longrightarrow> splitStr sep (a @ sep # b) = a # splitStr sep b"
  by (induction a) auto

lemma not_digit_point: "\<not> isDigit 0x2E"
  by (simp add: isDigit_def)

lemma not_digit_minus: "\<not> isDigit 0x2D"
  by (simp add: isDigit_def)

lemma js_minus: "js ''-'' = [0x2D]"
  by (simp add: js_def)

lemma js_point: "js ''.'' = [0x2E]"
  by (simp add: js_def)

lemma readFixed1_toFixed1:
  "readFixed1 (toFixed1 x) = Some ((if x < 0 then - 1 else 1) * (of_nat (tenths x) / 10))"
proof -
  define a where "a = decimal (tenths x div 10)"
  define c :: code_unit where "c = of_nat (48 + tenths x mod 10)"
  have b1: "decimal (tenths x mod 10) = [c]"
    by (simp add: decimal_small c_def)
  have pa: "0x2E \<notin> set a"
    using decimal_digits not_digit_point unfolding a_def by blast
  have "0x2E \<notin> set (decimal (tenths x mod 10))"
    using decimal_digits not_digit_point by blast
  then have pc: "c \<noteq> 0x2E" by (simp add: b1)
  have sp: "splitStr 0x2E (a @ 0x2E # [c]) = [a, [c]]"
    using pa pc by (simp add: splitStr_at)
  have ane: "a \<noteq> []" by (simp add: a_def decimal_nonempty)
  have "isDigit (hd a)"
    using ane decimal_digits [of "hd a" "tenths x div 10"] by (simp add: a_def)
  then have hd_a: "hd (a @ 0x2E # [c]) \<noteq> 0x2D"
    using ane not_digit_minus by auto
  have va: "digitsValue 0 a = Some (tenths x div 10)"
    by (simp add: a_def digitsValue_decimal)
  have vc: "digitsValue 0 [c] = Some (tenths x mod 10)"
    using digitsValue_decimal [of "tenths x mod 10"] by (simp only: b1)
  have val: "(of_nat (tenths x div 10) + of_nat (tenths x mod 10) / 10 :: rat) = of_nat (tenths x) / 10"
  proof -
    have "of_nat (tenths x) = (of_nat (10 * (tenths x div 10) + tenths x mod 10) :: rat)"
      by simp
    then show ?thesis by (simp only: of_nat_add of_nat_mult) (simp add: field_simps)
  qed
  have body: "(case splitStr 0x2E (a @ 0x2E # [c]) of
           [a', [b']] \<Rightarrow>
             (if a' = [] then None
              else case (digitsValue 0 a', digitsValue 0 [b']) of
                     (Some i, Some f) \<Rightarrow> Some (s * (of_nat i + of_nat f / 10))
                   | _ \<Rightarrow> None)
         | _ \<Rightarrow> None) = Some (s * (of_nat (tenths x) / 10 :: rat))" for s
    by (simp only: sp list.case ane if_False va vc prod.case option.case val)
  show ?thesis
  proof (cases "x < 0")
    case True
    then have t: "toFixed1 x = 0x2D # (a @ 0x2E # [c])"
      by (simp add: toFixed1_def js_minus js_point a_def b1)
    show ?thesis
      using True body [of "- 1"] by (simp add: readFixed1_def t)
  next
    case False
    then have t: "toFixed1 x = a @ 0x2E # [c]"
      by (simp add: toFixed1_def js_point a_def b1)
    have ne: "a @ 0x2E # [c] \<noteq> []" by simp
    show ?thesis
      using False body [of 1] hd_a by (simp add: readFixed1_def t)
  qed
qed

subsection \<open>Rounding\<close>

lemma tenths_near: "\<bar>of_nat (tenths x) / 10 - \<bar>x\<bar>\<bar> \<le> 1 / 20"
proof -
  define y where "y = \<bar>x\<bar> * 10 + 1 / 2"
  define k where "k = \<lfloor>y\<rfloor>"
  have "0 \<le> y" by (simp add: y_def)
  then have nn: "0 \<le> k" by (simp add: k_def)
  have lo: "of_int k \<le> y" and hi: "y < of_int k + 1"
    unfolding k_def by linarith+
  have t: "(of_nat (tenths x) :: rat) = of_int k"
    using nn by (simp add: tenths_def k_def y_def)
  have "\<bar>x\<bar> = (y - 1 / 2) / 10" by (simp add: y_def)
  then show ?thesis
    using lo hi by (simp only: t) (simp add: abs_le_iff field_simps)
qed

lemma tenths_zero: "tenths 0 = 0"
proof -
  have "\<lfloor>1 / 2 :: rat\<rfloor> = 0" by (rule floor_unique) simp_all
  then show ?thesis by (simp add: tenths_def)
qed

lemma tenths_minus: "tenths (- x) = tenths x"
  by (simp add: tenths_def)

lemma fl_minus: "fl (- x) = - fl x"
  by (simp add: fl_def Let_def)

lemma bitLength_bounds: "0 < n \<Longrightarrow> 2 ^ (bitLength n - 1) \<le> n \<and> n < 2 ^ bitLength n"
proof (induction n rule: bitLength.induct)
  case (1 n)
  then have n: "n \<noteq> 0" by simp
  have b: "bitLength n = Suc (bitLength (n div 2))"
    using n by (subst bitLength.simps) simp
  show ?case
  proof (cases "n div 2 = 0")
    case True
    then have "n = 1" using n by (simp add: div_eq_0_iff) 
    moreover have "bitLength 0 = 0" by (subst bitLength.simps) simp
    ultimately show ?thesis using b True by simp
  next
    case False
    then have pos: "0 < n div 2" by simp
    from 1(1) [OF n pos] have lo: "2 ^ (bitLength (n div 2) - 1) \<le> n div 2"
      and hi: "n div 2 < 2 ^ bitLength (n div 2)" by simp_all
    have bp: "0 < bitLength (n div 2)"
      using False by (subst bitLength.simps) simp
    then have e: "2 ^ bitLength (n div 2) = (2::nat) * 2 ^ (bitLength (n div 2) - 1)"
      by (cases "bitLength (n div 2)") simp_all
    have "2 * (n div 2) \<le> n" by simp
    with lo e have l: "2 ^ bitLength (n div 2) \<le> n" by linarith
    have "n < 2 * (n div 2) + 2" by presburger
    with hi have h: "n < 2 * 2 ^ bitLength (n div 2)" by linarith
    from l h show ?thesis by (simp add: b)
  qed
qed

lemma roundHalfEven_of_int: "roundHalfEven (of_int k) = k"
  by (simp add: roundHalfEven_def)

lemma fl_of_nat:
  assumes "n \<le> 2 ^ 53"
  shows "fl (of_nat n) = of_nat n"
proof (cases "n = 0")
  case True
  then show ?thesis by (simp add: fl_def)
next
  case False
  then have pos: "0 < n" by simp
  define x :: rat where "x = of_nat n"
  have x1: "1 \<le> x" using pos by (simp add: x_def)
  define e where "e = int (bitLength n) - 1"
  have ex: "exponent x = e"
    using x1 by (simp add: exponent_def x_def e_def)
  from bitLength_bounds [OF pos] have lo: "2 ^ (bitLength n - 1) \<le> n" by simp
  with assms have p: "(2::nat) ^ (bitLength n - 1) \<le> 2 ^ 53" by linarith
  have "(1::nat) < 2" by simp
  from power_le_imp_le_exp [OF this p] have le: "bitLength n - 1 \<le> 53" .
  have "\<exists>k :: int. x / (2 powi (e - 52)) = of_int k"
  proof (cases "e \<le> 52")
    case True
    define j where "j = nat (52 - e)"
    have "e - 52 = - int j" using True by (simp add: j_def)
    then have "(2::rat) powi (e - 52) = inverse (2 ^ j)"
      by (simp add: power_int_minus)
    then have "x / (2 powi (e - 52)) = of_int (int n * 2 ^ j)"
      by (simp add: x_def divide_inverse)
    then show ?thesis ..
  next
    case False
    with le have e53: "bitLength n - 1 = 53" by (simp add: e_def)
    then have "e = 53" using False by (simp add: e_def)
    moreover from lo e53 assms have "n = 2 ^ 53" by simp
    ultimately have "x / (2 powi (e - 52)) = of_int (2 ^ 52)"
      by (simp add: x_def)
    then show ?thesis ..
  qed
  then obtain k :: int where k: "x / (2 powi (e - 52)) = of_int k" ..
  have u0: "(2::rat) powi (e - 52) \<noteq> 0" by simp
  have "of_int (roundHalfEven (x / (2 powi (e - 52)))) * (2 powi (e - 52)) = x"
    using u0 by (simp only: k roundHalfEven_of_int) (simp add: k [symmetric])
  moreover have "x \<noteq> 0" "\<not> x < 0" "\<bar>x\<bar> = x" using x1 by simp_all
  ultimately show ?thesis
    unfolding x_def [symmetric] by (simp add: fl_def Let_def ex)
qed

lemma fl_of_int:
  assumes "\<bar>n\<bar> \<le> 2 ^ 53"
  shows "fl (of_int n) = of_int n"
proof -
  have "nat \<bar>n\<bar> \<le> 2 ^ 53" using assms by (simp add: nat_le_iff)
  from fl_of_nat [OF this] have a: "fl (of_int \<bar>n\<bar>) = of_int \<bar>n\<bar>"
    by simp
  show ?thesis
  proof (cases "n < 0")
    case True
    then have "of_int n = - (of_int \<bar>n\<bar> :: rat)" by simp
    then show ?thesis using a fl_minus [of "of_int \<bar>n\<bar>"] by simp
  next
    case False
    then show ?thesis using a by simp
  qed
qed

lemma fl_numeral: "numeral k \<le> (2 ^ 53 :: int) \<Longrightarrow> fl (numeral k) = numeral k"
  using fl_of_int [of "numeral k"] by simp

lemma fl_neg_numeral: "numeral k \<le> (2 ^ 53 :: int) \<Longrightarrow> fl (- numeral k) = - numeral k"
  using fl_of_int [of "- numeral k"] by simp

lemma floor_rat_numeral: "\<lfloor>numeral a / numeral b :: rat\<rfloor> = numeral a div numeral b"
  using floor_divide_of_int_eq [of "numeral a" "numeral b", where ?'a = rat] by simp

lemma toFixed1_minus5: "toFixed1 (- 5) = js ''-5.0''"
  by (simp add: toFixed1_def tenths_def decimal.simps js_def floor_rat_numeral)

lemma toFixed1_5: "toFixed1 5 = js ''5.0''"
  by (simp add: toFixed1_def tenths_def decimal.simps js_def floor_rat_numeral)

lemma bitLength_pos: "0 < n \<Longrightarrow> 0 < bitLength n"
  by (subst bitLength.simps) simp

lemma exponent_bounds:
  assumes "0 < x"
  shows "2 powi (exponent x) \<le> x \<and> x < 2 powi (exponent x + 1)"
proof (cases "1 \<le> x")
  case True
  define n where "n = nat \<lfloor>x\<rfloor>"
  have fl1: "1 \<le> \<lfloor>x\<rfloor>" using True by (simp add: le_floor_iff)
  then have n: "0 < n" and nx: "of_nat n \<le> x" and xn: "x < of_nat n + 1"
    unfolding n_def by (simp_all add: of_nat_nat) linarith+
  from bitLength_bounds [OF n] have lo: "2 ^ (bitLength n - 1) \<le> n" and hi: "n < 2 ^ bitLength n"
    by simp_all
  from bitLength_pos [OF n] obtain k where k: "bitLength n = Suc k"
    by (cases "bitLength n") simp_all
  have e: "exponent x = int k"
    using True by (simp add: exponent_def n_def [symmetric] k)
  have "(2::rat) ^ k \<le> of_nat n"
    using lo unfolding k by (metis diff_Suc_1 of_nat_le_iff of_nat_numeral of_nat_power)
  with nx have a: "(2::rat) ^ k \<le> x" by linarith
  have "n + 1 \<le> 2 ^ Suc k" using hi unfolding k by simp
  then have "(of_nat (n + 1) :: rat) \<le> of_nat (2 ^ Suc k)"
    by (simp only: of_nat_le_iff)
  then have "(of_nat n :: rat) + 1 \<le> 2 ^ Suc k" by simp
  with xn have b: "x < 2 ^ Suc k" by linarith
  have "(2::rat) powi (int k + 1) = 2 ^ Suc k"
    by (metis of_nat_Suc power_int_of_nat add.commute)
  with a b show ?thesis by (simp add: e)
next
  case False
  with assms have x1: "x < 1" by simp
  define c where "c = \<lceil>1 / x\<rceil>"
  define m where "m = nat (c - 1)"
  have inv: "1 < 1 / x" using assms x1 by simp
  have "1 < c" unfolding c_def using inv by (simp add: less_ceiling_iff)
  then have m: "0 < m" and mc: "int m = c - 1" unfolding m_def by simp_all
  have up: "1 / x \<le> of_int c" unfolding c_def by (rule le_of_int_ceiling)
  have dn: "of_int c - 1 < 1 / x" unfolding c_def by linarith
  from bitLength_bounds [OF m] have lo: "2 ^ (bitLength m - 1) \<le> m" and hi: "m < 2 ^ bitLength m"
    by simp_all
  from bitLength_pos [OF m] obtain k where k: "bitLength m = Suc k"
    by (cases "bitLength m") simp_all
  have e: "exponent x = - int (Suc k)"
    using False by (simp add: exponent_def c_def [symmetric] m_def [symmetric] k)
  have "(of_nat m :: rat) = of_int c - 1"
    using mc by (metis of_int_1 of_int_diff of_int_of_nat_eq)
  have "m + 1 \<le> 2 ^ Suc k" using hi unfolding k by simp
  then have "(of_nat (m + 1) :: rat) \<le> of_nat (2 ^ Suc k)"
    by (simp only: of_nat_le_iff)
  then have "(of_int c :: rat) \<le> 2 ^ Suc k"
    using \<open>(of_nat m :: rat) = of_int c - 1\<close> by simp
  with up have a: "1 / x \<le> 2 ^ Suc k" by linarith
  have "(2::rat) ^ k \<le> of_nat m"
    using lo unfolding k by (metis diff_Suc_1 of_nat_le_iff of_nat_numeral of_nat_power)
  with dn \<open>(of_nat m :: rat) = of_int c - 1\<close> have b: "2 ^ k < 1 / x" by linarith
  have p1: "(2::rat) powi (- int (Suc k)) = 1 / 2 ^ Suc k"
    by (simp only: power_int_minus power_int_of_nat inverse_eq_divide)
  have p2: "(2::rat) powi (- int (Suc k) + 1) = 1 / 2 ^ k"
  proof -
    have "- int (Suc k) + 1 = - int k" by simp
    then have "(2::rat) powi (- int (Suc k) + 1) = 2 powi (- int k)" by (simp only:)
    also have "\<dots> = 1 / 2 ^ k" by (simp only: power_int_minus power_int_of_nat inverse_eq_divide)
    finally show ?thesis .
  qed
  have A: "1 / 2 ^ Suc k \<le> x"
  proof -
    have "1 \<le> x * 2 ^ Suc k" using a assms by (simp add: field_simps)
    then show ?thesis by (simp add: field_simps)
  qed
  have B: "x < 1 / 2 ^ k"
  proof -
    have "x * 2 ^ k < 1" using b assms by (simp add: field_simps)
    then show ?thesis by (simp add: field_simps)
  qed
  from A B show ?thesis by (simp only: e p1 p2)
qed

lemma roundHalfEven_near: "\<bar>of_int (roundHalfEven m) - m\<bar> \<le> 1 / 2"
proof -
  have "of_int \<lfloor>m\<rfloor> \<le> m" "m < of_int \<lfloor>m\<rfloor> + 1" by linarith+
  then show ?thesis
    by (auto simp: roundHalfEven_def Let_def abs_le_iff)
qed

lemma fl_error: "\<bar>fl x - x\<bar> \<le> \<bar>x\<bar> / 2 ^ 53"
proof (cases "x = 0")
  case True
  then show ?thesis by (simp add: fl_def)
next
  case False
  define a where "a = \<bar>x\<bar>"
  have a: "0 < a" using False by (simp add: a_def)
  define e where "e = exponent a"
  define u :: rat where "u = 2 powi (e - 52)"
  define r where "r = of_int (roundHalfEven (a / u)) * u"
  have u: "0 < u" by (simp add: u_def)
  have "\<bar>r - a\<bar> = u * \<bar>of_int (roundHalfEven (a / u)) - a / u\<bar>"
  proof -
    have "r - a = u * (of_int (roundHalfEven (a / u)) - a / u)"
      using u by (simp add: r_def field_simps)
    then show ?thesis using u by (simp add: abs_mult)
  qed
  also have "\<dots> \<le> u * (1 / 2)"
    using roundHalfEven_near [of "a / u"] u by (simp only: mult_le_cancel_left_pos)
  finally have d: "\<bar>r - a\<bar> \<le> u / 2" by simp
  from exponent_bounds [OF a] have lo: "2 powi e \<le> a" by (simp add: e_def)
  have "(2::rat) powi (e - 52 + 52) = 2 powi (e - 52) * 2 powi 52"
    by (rule power_int_add) simp
  moreover have "(2::rat) powi 52 = 2 ^ 52"
    using power_int_of_nat [of "2::rat" 52] by simp
  ultimately have "(2::rat) powi e = u * 2 ^ 52" by (simp add: u_def)
  with lo have "u * 2 ^ 52 \<le> a" by simp
  then have "u / 2 \<le> a / 2 ^ 53" by (simp add: field_simps)
  with d have bound: "\<bar>r - a\<bar> \<le> a / 2 ^ 53" by linarith
  have f: "fl x = (if x < 0 then - r else r)"
    using False by (simp add: fl_def Let_def r_def u_def e_def a_def)
  show ?thesis
  proof (cases "x < 0")
    case True
    then have "fl x - x = - (r - a)" by (simp add: f a_def)
    then have "\<bar>fl x - x\<bar> = \<bar>r - a\<bar>" by (simp only: abs_minus_cancel)
    then show ?thesis using bound by (simp only: a_def [symmetric])
  next
    case False
    then have "fl x - x = r - a" by (simp add: f a_def)
    then show ?thesis using bound by (simp add: a_def [symmetric])
  qed
qed

subsection \<open>Values\<close>

lemma falsy_iff: "\<not> truthy v \<longleftrightarrow> v \<in> {JUndefined, JNull, JBool False, JNum (Fin 0), JStr []}"
  by (cases v) auto

lemma readProp_not_object: "\<not> isObject data \<Longrightarrow> readProp data k = JUndefined"
  by (cases data) simp_all

lemma readProp_object:
  "readProp (JObj kvs) k = (case map_of kvs k of None \<Rightarrow> JUndefined | Some v \<Rightarrow> v)"
  by (simp split: option.splits)

subsection \<open>The location service\<close>

lemma trim_length: "2 \<le> length (trim query) \<Longrightarrow> query \<noteq> []"
  by (auto simp: trim_def)

text \<open>
  C9. A query whose trimmed length is below two, the empty query included, makes
  \<^verbatim>\<open>resolveLocation\<close> return null at once: no request is issued.
\<close>

theorem resolveLocation_short_query:
  "length (trim query) < 2 \<Longrightarrow> resolveLocation svc (JStr query) = ([], Inr None)"
  by (simp add: resolveLocation_def)

lemma trim_sample: "trim (js '' a '') = js ''a''"
  by (simp add: trim_def js_def isWhiteSpace_def)

theorem resolveLocation_short_query_witness:
  "length (trim (js '' a '')) < 2 \<and> resolveLocation unreachable (JStr (js '' a '')) = ([], Inr None)"
proof -
  have h: "length (trim (js '' a '')) < 2" by (simp add: trim_sample) (simp add: js_def)
  from resolveLocation_short_query [OF h] h show ?thesis by blast
qed

lemma resolveLocation_string:
  assumes "2 \<le> length (trim query)"
  shows "resolveLocation svc (JStr query) =
           (case resolveLocation_try svc query of
              (calls, Inl e) \<Rightarrow> (calls, Inr None)
            | (calls, Inr r) \<Rightarrow> (calls, Inr r))"
  using assms trim_length [OF assms] by (simp add: resolveLocation_def)

lemma resolveLocation_try_calls: "fst (resolveLocation_try svc query) = [mkRequest query]"
  by (simp add: resolveLocation_try_def)

lemma resolveLocation_calls:
  assumes "2 \<le> length (trim query)"
  shows "fst (resolveLocation svc (JStr query)) = [mkRequest query]"
  using resolveLocation_try_calls [of svc query]
  by (auto simp: resolveLocation_string [OF assms] split: prod.splits sum.splits)

lemma resolveLocation_string_value: "\<not> isl (snd (resolveLocation svc (JStr query)))"
  by (simp add: resolveLocation_def split: prod.splits sum.splits)

text \<open>What the service returns once the request is answered, by the parsed body.\<close>

lemma resolveLocation_answered:
  assumes "2 \<le> length (trim query)" and "generateContent svc (mkRequest query) = Fulfilled text"
  shows "snd (resolveLocation svc (JStr query)) =
     (case JSON_parse svc (textOrEmptyObject text) of
        Inl e \<Rightarrow> Inr None
      | Inr (JObj kvs) \<Rightarrow>
          (let prop = (\<lambda>k. case map_of kvs (js k) of None \<Rightarrow> JUndefined | Some v \<Rightarrow> v)
           in if prop ''valid'' \<in> {JUndefined, JNull, JBool False, JNum (Fin 0), JStr []}
              then Inr None
              else Inr (Some \<lparr> ianaTimezone = prop ''ianaTimezone'', fullName = prop ''fullName'',
                                city = prop ''city'', country = prop ''country'',
                                countryCode = prop ''countryCode'', funFact = prop ''funFact'' \<rparr>))
      | Inr other \<Rightarrow> Inr None)"
proof (cases "JSON_parse svc (textOrEmptyObject text)")
  case (Inl e)
  then show ?thesis
    using assms(2)
    by (simp add: resolveLocation_string [OF assms(1)] resolveLocation_try_def)
next
  case (Inr data)
  show ?thesis
  proof (cases "isObject data")
    case False
    then have "getProp data (js ''valid'') = Inl TypeError \<or> getProp data (js ''valid'') = Inr JUndefined"
      by (cases data) (simp_all add: getProp_def)
    then have "snd (resolveLocation svc (JStr query)) = Inr None"
      using assms(2) Inr
      by (auto simp: resolveLocation_string [OF assms(1)] resolveLocation_try_def)
    moreover have "(case data of JObj kvs \<Rightarrow> f kvs | _ \<Rightarrow> (Inr None :: exn + LocationInfo option)) = Inr None" for f
      using False by (cases data) simp_all
    ultimately show ?thesis by (simp add: Inr)
  next
    case True
    then obtain kvs where d: "data = JObj kvs" by (cases data) simp_all
    have lhs: "snd (resolveLocation svc (JStr query)) =
        (if \<not> truthy (readProp (JObj kvs) (js ''valid'')) then Inr None
         else Inr (Some (locationFields (JObj kvs))))"
      using assms(2) Inr d
      by (simp add: resolveLocation_string [OF assms(1)] resolveLocation_try_def getProp_def
          del: readProp.simps)
    have rhs: "(case JSON_parse svc (textOrEmptyObject text) of
        Inl e \<Rightarrow> Inr None
      | Inr (JObj kvs) \<Rightarrow>
          (let prop = (\<lambda>k. case map_of kvs (js k) of None \<Rightarrow> JUndefined | Some v \<Rightarrow> v)
           in if prop ''valid'' \<in> {JUndefined, JNull, JBool False, JNum (Fin 0), JStr []}
              then Inr None
              else Inr (Some \<lparr> ianaTimezone = prop ''ianaTimezone'', fullName = prop ''fullName'',
                                city = prop ''city'', country = prop ''country'',
                                countryCode = prop ''countryCode'', funFact = prop ''funFact'' \<rparr>))
      | Inr other \<Rightarrow> Inr None) =
        (if readProp (JObj kvs) (js ''valid'') \<in> {JUndefined, JNull, JBool False, JNum (Fin 0), JStr []}
         then Inr None else Inr (Some (locationFields (JObj kvs))))"
      by (simp add: Inr d Let_def locationFields_def)
    show ?thesis by (simp only: lhs rhs falsy_iff)
  qed
qed

text \<open>
  C3 (as amended). For a query of trimmed length at least two, \<^verbatim>\<open>resolveLocation\<close> issues
  one request and returns a value: no exception reaches the caller. The value is null
  exactly when the promise rejects, the body is not JSON, the body is JSON and not an
  object, or the \<^verbatim>\<open>valid\<close> of the body is absent or falsy (false, zero, the empty
  string, null). An object with a truthy \<^verbatim>\<open>valid\<close> is returned as a location, whether
  it conforms to the schema or not.
\<close>

theorem resolveLocation_null_iff:
  assumes "2 \<le> length (trim query)"
  shows "fst (resolveLocation svc (JStr query)) = [mkRequest query] \<and>
         \<not> isl (snd (resolveLocation svc (JStr query))) \<and>
         (snd (resolveLocation svc (JStr query)) = Inr None \<longleftrightarrow>
            (case generateContent svc (mkRequest query) of
               Rejected e \<Rightarrow> True
             | Fulfilled text \<Rightarrow>
                 (case JSON_parse svc (textOrEmptyObject text) of
                    Inl e \<Rightarrow> True
                  | Inr (JObj kvs) \<Rightarrow>
                      map_of kvs (js ''valid'') \<in>
                        {None, Some JUndefined, Some JNull, Some (JBool False),
                         Some (JNum (Fin 0)), Some (JStr [])}
                  | Inr other \<Rightarrow> True)))"
proof -
  have n: "snd (resolveLocation svc (JStr query)) = Inr None \<longleftrightarrow>
            (case generateContent svc (mkRequest query) of
               Rejected e \<Rightarrow> True
             | Fulfilled text \<Rightarrow>
                 (case JSON_parse svc (textOrEmptyObject text) of
                    Inl e \<Rightarrow> True
                  | Inr (JObj kvs) \<Rightarrow>
                      map_of kvs (js ''valid'') \<in>
                        {None, Some JUndefined, Some JNull, Some (JBool False),
                         Some (JNum (Fin 0)), Some (JStr [])}
                  | Inr other \<Rightarrow> True))"
  proof (cases "generateContent svc (mkRequest query)")
    case (Rejected e)
    then show ?thesis
      by (simp add: resolveLocation_string [OF assms] resolveLocation_try_def)
  next
    case (Fulfilled body)
    show ?thesis
      by (simp only: resolveLocation_answered [OF assms Fulfilled] Fulfilled reply.case)
         (auto simp: Let_def split: sum.splits jsval.splits option.splits)
  qed
  from resolveLocation_calls [OF assms] resolveLocation_string_value [of svc query] n
  show ?thesis by blast
qed

lemma trim_London: "trim (js ''London'') = js ''London''"
  by (simp add: trim_def js_def isWhiteSpace_def)

lemma London_long: "2 \<le> length (trim (js ''London''))"
  by (simp add: trim_London) (simp add: js_def)

lemma Atlantis_long: "2 \<le> length (trim (js ''Atlantis''))"
  by (simp add: trim_def js_def isWhiteSpace_def)

lemma Paris_long: "2 \<le> length (trim (js ''Paris''))"
  by (simp add: trim_def js_def isWhiteSpace_def)

theorem resolveLocation_null_iff_witness:
  "2 \<le> length (trim (js ''London'')) \<and>
   resolveLocation unreachable (JStr (js ''London'')) = ([mkRequest (js ''London'')], Inr None) \<and>
   resolveLocation (replying (Some (js ''<html>''))) (JStr (js ''London'')) =
     ([mkRequest (js ''London'')], Inr None) \<and>
   resolveLocation (replying (Some (js ''null''))) (JStr (js ''London'')) =
     ([mkRequest (js ''London'')], Inr None) \<and>
   resolveLocation (replying (Some (js ''{\"valid\":false}''))) (JStr (js ''London'')) =
     ([mkRequest (js ''London'')], Inr None) \<and>
   resolveLocation (replying (Some (js ''{\"valid\":0,\"city\":\"Paris\"}''))) (JStr (js ''London'')) =
     ([mkRequest (js ''London'')], Inr None) \<and>
   resolveLocation (replying None) (JStr (js ''London'')) = ([mkRequest (js ''London'')], Inr None) \<and>
   snd (resolveLocation (replying (Some (js ''{\"valid\":true}''))) (JStr (js ''London''))) \<noteq> Inr None"
proof -
  note c = resolveLocation_null_iff [OF London_long, THEN conjunct1]
  note w = resolveLocation_null_iff [OF London_long, THEN conjunct2, THEN conjunct2]
  have p: "resolveLocation svc (JStr (js ''London'')) = ([mkRequest (js ''London'')], Inr None)"
    if "snd (resolveLocation svc (JStr (js ''London''))) = Inr None" for svc
    using c [of svc] that by (cases "resolveLocation svc (JStr (js ''London''))") simp
  have 1: "resolveLocation unreachable (JStr (js ''London'')) = ([mkRequest (js ''London'')], Inr None)"
    by (rule p) (simp only: w, simp add: unreachable_def)
  have 2: "resolveLocation (replying (Some (js ''<html>''))) (JStr (js ''London'')) =
     ([mkRequest (js ''London'')], Inr None)"
    by (rule p) (simp only: w, simp add: replying_def textOrEmptyObject_def sampleParse_def js_def)
  have 3: "resolveLocation (replying (Some (js ''null''))) (JStr (js ''London'')) =
     ([mkRequest (js ''London'')], Inr None)"
    by (rule p) (simp only: w, simp add: replying_def textOrEmptyObject_def sampleParse_def js_def)
  have 4: "resolveLocation (replying (Some (js ''{\"valid\":false}''))) (JStr (js ''London'')) =
     ([mkRequest (js ''London'')], Inr None)"
    by (rule p) (simp only: w, simp add: replying_def textOrEmptyObject_def sampleParse_def js_def)
  have 5: "resolveLocation (replying (Some (js ''{\"valid\":0,\"city\":\"Paris\"}''))) (JStr (js ''London'')) =
     ([mkRequest (js ''London'')], Inr None)"
    by (rule p) (simp only: w, simp add: replying_def textOrEmptyObject_def sampleParse_def js_def)
  have 6: "resolveLocation (replying None) (JStr (js ''London'')) = ([mkRequest (js ''London'')], Inr None)"
    by (rule p) (simp only: w, simp add: replying_def textOrEmptyObject_def sampleParse_def js_def)
  have 7: "snd (resolveLocation (replying (Some (js ''{\"valid\":true}''))) (JStr (js ''London''))) \<noteq> Inr None"
    by (simp only: w, simp add: replying_def textOrEmptyObject_def sampleParse_def js_def)
  from London_long 1 2 3 4 5 6 7 show ?thesis by blast
qed

text \<open>
  The claim as stated fails at the body \<^verbatim>\<open>{"valid":true,"fullName":"Atlantis"}\<close>: the
  response does not conform to the schema, so the call has failed in the words of the
  specification, and the result is an object, not null.
\<close>

theorem resolveLocation_failure_counterexample:
  "2 \<le> length (trim (js ''Atlantis'')) \<and>
   remoteCallFails (replying (Some (js ''{\"valid\":true,\"fullName\":\"Atlantis\"}''))) (js ''Atlantis'') \<and>
   resolveLocation (replying (Some (js ''{\"valid\":true,\"fullName\":\"Atlantis\"}''))) (JStr (js ''Atlantis'')) =
     ([mkRequest (js ''Atlantis'')],
      Inr (Some \<lparr> ianaTimezone = JUndefined, fullName = JStr (js ''Atlantis''), city = JUndefined,
                  country = JUndefined, countryCode = JUndefined, funFact = JUndefined \<rparr>))"
proof -
  have g: "js ''Atlantis'' \<noteq> [] \<and> \<not> length (trim (js ''Atlantis'')) < 2"
    using Atlantis_long by (auto simp: js_def)
  have a: "remoteCallFails (replying (Some (js ''{\"valid\":true,\"fullName\":\"Atlantis\"}''))) (js ''Atlantis'')"
    by (simp add: remoteCallFails_def replying_def textOrEmptyObject_def sampleParse_def
        conformsToSchema_def js_def)
  have "resolveLocation_try (replying (Some (js ''{\"valid\":true,\"fullName\":\"Atlantis\"}''))) (js ''Atlantis'') =
     ([mkRequest (js ''Atlantis'')],
      Inr (Some \<lparr> ianaTimezone = JUndefined, fullName = JStr (js ''Atlantis''), city = JUndefined,
                  country = JUndefined, countryCode = JUndefined, funFact = JUndefined \<rparr>))"
    by (simp add: resolveLocation_try_def replying_def textOrEmptyObject_def sampleParse_def
        getProp_def locationFields_def js_def)
  then have "resolveLocation (replying (Some (js ''{\"valid\":true,\"fullName\":\"Atlantis\"}''))) (JStr (js ''Atlantis'')) =
     ([mkRequest (js ''Atlantis'')],
      Inr (Some \<lparr> ianaTimezone = JUndefined, fullName = JStr (js ''Atlantis''), city = JUndefined,
                  country = JUndefined, countryCode = JUndefined, funFact = JUndefined \<rparr>))"
    using g by (simp add: resolveLocation_def)
  with Atlantis_long a show ?thesis by blast
qed

text \<open>
  C2 (as amended). \<^verbatim>\<open>resolveLocation\<close> does not check the body against the schema. For a
  query of trimmed length at least two whose request is answered, it returns null when
  the body is not JSON, is not an object, or has a \<^verbatim>\<open>valid\<close> that is absent or falsy
  (false, zero, the empty string, null); for every other body, conforming or not, it
  returns the object of the six properties as the body has them, each of any type and
  undefined where absent.
\<close>

theorem resolveLocation_unchecked_body:
  assumes "2 \<le> length (trim query)" and "generateContent svc (mkRequest query) = Fulfilled text"
  shows "snd (resolveLocation svc (JStr query)) =
     (case JSON_parse svc (textOrEmptyObject text) of
        Inl e \<Rightarrow> Inr None
      | Inr (JObj kvs) \<Rightarrow>
          (let prop = (\<lambda>k. case map_of kvs (js k) of None \<Rightarrow> JUndefined | Some v \<Rightarrow> v)
           in if prop ''valid'' \<in> {JUndefined, JNull, JBool False, JNum (Fin 0), JStr []}
              then Inr None
              else Inr (Some \<lparr> ianaTimezone = prop ''ianaTimezone'', fullName = prop ''fullName'',
                                city = prop ''city'', country = prop ''country'',
                                countryCode = prop ''countryCode'', funFact = prop ''funFact'' \<rparr>))
      | Inr other \<Rightarrow> Inr None)"
  using assms by (rule resolveLocation_answered)

theorem resolveLocation_unchecked_body_witness:
  \<open>2 \<le> length (trim (js ''Paris'')) \<and>
   generateContent (replying (Some (js ''{"valid":"yes","ianaTimezone":"Europe/Paris","fullName":"Paris, France","city":"Paris","country":"France","countryCode":33}''))) (mkRequest (js ''Paris'')) =
     Fulfilled (Some (js ''{"valid":"yes","ianaTimezone":"Europe/Paris","fullName":"Paris, France","city":"Paris","country":"France","countryCode":33}'')) \<and>
   snd (resolveLocation (replying (Some (js ''{"valid":"yes","ianaTimezone":"Europe/Paris","fullName":"Paris, France","city":"Paris","country":"France","countryCode":33}''))) (JStr (js ''Paris''))) =
     Inr (Some \<lparr> ianaTimezone = JStr (js ''Europe/Paris''), fullName = JStr (js ''Paris, France''),
                 city = JStr (js ''Paris''), country = JStr (js ''France''),
                 countryCode = JNum (Fin 33), funFact = JUndefined \<rparr>) \<and>
   generateContent (replying (Some (js ''{"valid":0,"city":"Paris"}''))) (mkRequest (js ''Paris'')) =
     Fulfilled (Some (js ''{"valid":0,"city":"Paris"}'')) \<and>
   snd (resolveLocation (replying (Some (js ''{"valid":0,"city":"Paris"}''))) (JStr (js ''Paris''))) = Inr None\<close>
proof -
  let ?b = \<open>js ''{"valid":"yes","ianaTimezone":"Europe/Paris","fullName":"Paris, France","city":"Paris","country":"France","countryCode":33}''\<close>
  let ?c = \<open>js ''{"valid":0,"city":"Paris"}''\<close>
  have f: "generateContent (replying (Some ?b)) (mkRequest (js ''Paris'')) = Fulfilled (Some ?b)"
    by (simp add: replying_def)
  have g: "generateContent (replying (Some ?c)) (mkRequest (js ''Paris'')) = Fulfilled (Some ?c)"
    by (simp add: replying_def)
  have 1: "snd (resolveLocation (replying (Some ?b)) (JStr (js ''Paris''))) =
     Inr (Some \<lparr> ianaTimezone = JStr (js ''Europe/Paris''), fullName = JStr (js ''Paris, France''),
                 city = JStr (js ''Paris''), country = JStr (js ''France''),
                 countryCode = JNum (Fin 33), funFact = JUndefined \<rparr>)"
    by (simp only: resolveLocation_unchecked_body [OF Paris_long f])
       (simp add: replying_def textOrEmptyObject_def sampleParse_def js_def)
  have 2: "snd (resolveLocation (replying (Some ?c)) (JStr (js ''Paris''))) = Inr None"
    by (simp only: resolveLocation_unchecked_body [OF Paris_long g])
       (simp add: replying_def textOrEmptyObject_def sampleParse_def js_def)
  from Paris_long f g 1 2 show ?thesis by blast
qed

text \<open>
  The claim as stated fails at the body \<^verbatim>\<open>{"valid":true}\<close>: it does not conform to the
  schema, and the result is an object of six undefined fields, not null.
\<close>

theorem schema_counterexample:
  "\<not> conformsToSchema (JObj [(js ''valid'', JBool True)]) \<and>
   JSON_parse (replying (Some (js ''{\"valid\":true}'')))
     (textOrEmptyObject (Some (js ''{\"valid\":true}''))) = Inr (JObj [(js ''valid'', JBool True)]) \<and>
   snd (resolveLocation (replying (Some (js ''{\"valid\":true}''))) (JStr (js ''Atlantis''))) =
     Inr (Some \<lparr> ianaTimezone = JUndefined, fullName = JUndefined, city = JUndefined,
                 country = JUndefined, countryCode = JUndefined, funFact = JUndefined \<rparr>)"
proof -
  have g: "js ''Atlantis'' \<noteq> [] \<and> \<not> length (trim (js ''Atlantis'')) < 2"
    using Atlantis_long by (auto simp: js_def)
  have a: "\<not> conformsToSchema (JObj [(js ''valid'', JBool True)])"
    by (simp add: conformsToSchema_def js_def)
  have p: "JSON_parse (replying (Some (js ''{\"valid\":true}'')))
     (textOrEmptyObject (Some (js ''{\"valid\":true}''))) = Inr (JObj [(js ''valid'', JBool True)])"
    by (simp add: replying_def textOrEmptyObject_def sampleParse_def js_def)
  have "resolveLocation_try (replying (Some (js ''{\"valid\":true}''))) (js ''Atlantis'') =
     ([mkRequest (js ''Atlantis'')],
      Inr (Some \<lparr> ianaTimezone = JUndefined, fullName = JUndefined, city = JUndefined,
                 country = JUndefined, countryCode = JUndefined, funFact = JUndefined \<rparr>))"
    by (simp add: resolveLocation_try_def replying_def textOrEmptyObject_def sampleParse_def
        getProp_def locationFields_def js_def)
  then have "snd (resolveLocation (replying (Some (js ''{\"valid\":true}''))) (JStr (js ''Atlantis''))) =
     Inr (Some \<lparr> ianaTimezone = JUndefined, fullName = JUndefined, city = JUndefined,
                 country = JUndefined, countryCode = JUndefined, funFact = JUndefined \<rparr>)"
    using g by (simp add: resolveLocation_def)
  with a p show ?thesis by blast
qed

subsection \<open>Resolving a slot\<close>

lemma resolveLocation_rejects_iff:
  "isl (snd (resolveLocation svc v)) \<longleftrightarrow>
     (case v of
        JUndefined \<Rightarrow> False
      | JNull \<Rightarrow> False
      | JBool b \<Rightarrow> b
      | JNum n \<Rightarrow> n \<noteq> Fin 0
      | JStr s \<Rightarrow> False
      | JArr xs \<Rightarrow> True
      | JObj kvs \<Rightarrow> True)"
  by (cases v) (auto simp: resolveLocation_def split: prod.splits sum.splits)

lemma resolveLocation_rejected:
  assumes "isl (snd (resolveLocation svc v))"
  shows "truthy v \<and> v \<noteq> JUndefined \<and> (\<exists>e. resolveLocation svc v = ([], Inl e))"
  using assms
  by (cases v) (auto simp: resolveLocation_def split: prod.splits sum.splits if_splits)

lemma resolveLocation_transport:
  assumes "transportFails svc query"
  shows "snd (resolveLocation svc (JStr query)) = Inr None"
proof (cases "2 \<le> length (trim query)")
  case False
  then show ?thesis by (simp add: resolveLocation_def)
next
  case True
  show ?thesis
    using assms
    by (auto simp: resolveLocation_string [OF True] resolveLocation_try_def transportFails_def
        getProp_def split: reply.splits sum.splits)
qed

lemma updateTimeForSource_error: "error (updateTimeForSource env now tz st) = error st"
  by (simp add: updateTimeForSource_def split: sum.splits)

lemma notFound_distinct:
  "notFound env v \<noteq> js ''Failed to resolve source location.''"
  "notFound env v \<noteq> js ''Failed to resolve target location.''"
  by (simp_all add: notFound_def js_def)

lemma notFound_string: "notFound env (JStr query) = js ''Could not find location: '' @ query"
  by (simp add: notFound_def templateText_def)

lemma resolveSource_settle_generic:
  "error (resolveSource_settle env now v res (resolveSource_begin v st)) =
     Some (js ''Failed to resolve source location.'') \<longleftrightarrow> isl res"
  using notFound_distinct(1) [of env v]
  by (cases res)
     (auto simp: resolveSource_settle_def resolveSource_begin_def updateTimeForSource_error
        split: option.splits)

lemma resolveTarget_settle_generic:
  "error (resolveTarget_settle env v res (resolveTarget_begin v st)) =
     Some (js ''Failed to resolve target location.'') \<longleftrightarrow> isl res"
  using notFound_distinct(2) [of env v]
  by (cases res)
     (auto simp: resolveTarget_settle_def resolveTarget_begin_def split: option.splits)

lemma resolveSource_string:
  assumes "query \<noteq> []"
  shows "fst (resolveSource svc env now (Some (JStr query)) st) =
           resolveSource_settle env now (JStr query) (snd (resolveLocation svc (JStr query)))
             (resolveSource_begin (JStr query) st)"
  using assms by (simp add: resolveSource_def Let_def split: prod.splits)

lemma resolveTarget_string:
  assumes "query \<noteq> []"
  shows "fst (resolveTarget svc env (Some (JStr query)) st) =
           resolveTarget_settle env (JStr query) (snd (resolveLocation svc (JStr query)))
             (resolveTarget_begin (JStr query) st)"
  using assms by (simp add: resolveTarget_def Let_def split: prod.splits)

text \<open>
  C10. \<^verbatim>\<open>resolveSource\<close> and \<^verbatim>\<open>resolveTarget\<close> called with the empty string return at
  once: the state is unchanged in every signal and no request is issued.
\<close>

theorem empty_query_noop:
  "resolveSource svc env now (Some (JStr [])) st = (st, []) \<and>
   resolveTarget svc env (Some (JStr [])) st = (st, [])"
  by (simp add: resolveSource_def resolveTarget_def)

text \<open>
  C1 (as amended). A transport-level failure of the remote call is caught inside
  \<^verbatim>\<open>resolveLocation\<close>, which resolves to null; \<^verbatim>\<open>resolveSource\<close> and \<^verbatim>\<open>resolveTarget\<close>,
  called with a non-empty string, then show the not-found message of that query,
  which differs from both generic messages. The generic message of a slot is shown
  exactly when the awaited promise rejects. The promise of \<^verbatim>\<open>resolveLocation\<close> rejects
  exactly when the query is a truthy value that is not a string (the call of
  \<^verbatim>\<open>query.trim\<close> throws before the \<^verbatim>\<open>try\<close> block), which the query signal can hold
  after a response whose \<^verbatim>\<open>fullName\<close> is not a string: a call with a non-empty string
  never ends with the generic message, whatever the service answers, and a call with
  such a value always does.
\<close>

theorem transport_failure_message:
  assumes "query \<noteq> []" and "transportFails svc query"
  shows "error (fst (resolveSource svc env now (Some (JStr query)) st)) =
           Some (js ''Could not find location: '' @ query) \<and>
         error (fst (resolveTarget svc env (Some (JStr query)) st)) =
           Some (js ''Could not find location: '' @ query) \<and>
         js ''Could not find location: '' @ query \<noteq> js ''Failed to resolve source location.'' \<and>
         js ''Could not find location: '' @ query \<noteq> js ''Failed to resolve target location.'' \<and>
         (error (resolveSource_settle env now v res (resolveSource_begin v st)) =
            Some (js ''Failed to resolve source location.'') \<longleftrightarrow> isl res) \<and>
         (error (resolveTarget_settle env v res (resolveTarget_begin v st)) =
            Some (js ''Failed to resolve target location.'') \<longleftrightarrow> isl res) \<and>
         (isl (snd (resolveLocation svc' v)) \<longleftrightarrow>
            (case v of
               JUndefined \<Rightarrow> False
             | JNull \<Rightarrow> False
             | JBool b \<Rightarrow> b
             | JNum n \<Rightarrow> n \<noteq> Fin 0
             | JStr s \<Rightarrow> False
             | JArr xs \<Rightarrow> True
             | JObj kvs \<Rightarrow> True)) \<and>
         error (fst (resolveSource svc' env now (Some (JStr query)) st)) \<noteq>
           Some (js ''Failed to resolve source location.'') \<and>
         error (fst (resolveTarget svc' env (Some (JStr query)) st)) \<noteq>
           Some (js ''Failed to resolve target location.'') \<and>
         (isl (snd (resolveLocation svc' v)) \<longrightarrow>
            resolveSource svc' env now (Some v) st =
              (st\<lparr>sourceQuery := v, error := Some (js ''Failed to resolve source location.''),
                   isLoadingSource := False\<rparr>, []) \<and>
            resolveTarget svc' env (Some v) st =
              (st\<lparr>targetQuery := v, error := Some (js ''Failed to resolve target location.''),
                   isLoadingTarget := False\<rparr>, []))"
proof -
  note n = resolveLocation_transport [OF assms(2)]
  have s: "error (fst (resolveSource svc env now (Some (JStr query)) st)) =
           Some (js ''Could not find location: '' @ query)"
    by (simp add: resolveSource_string [OF assms(1)] n resolveSource_settle_def notFound_string)
  have t: "error (fst (resolveTarget svc env (Some (JStr query)) st)) =
           Some (js ''Could not find location: '' @ query)"
    by (simp add: resolveTarget_string [OF assms(1)] n resolveTarget_settle_def notFound_string)
  have d: "js ''Could not find location: '' @ query \<noteq> js ''Failed to resolve source location.''"
    "js ''Could not find location: '' @ query \<noteq> js ''Failed to resolve target location.''"
    by (simp_all add: js_def)
  have ns: "error (fst (resolveSource svc' env now (Some (JStr query)) st)) \<noteq>
           Some (js ''Failed to resolve source location.'')"
    using resolveLocation_string_value [of svc' query]
    by (simp add: resolveSource_string [OF assms(1)] resolveSource_settle_generic)
  have nt: "error (fst (resolveTarget svc' env (Some (JStr query)) st)) \<noteq>
           Some (js ''Failed to resolve target location.'')"
    using resolveLocation_string_value [of svc' query]
    by (simp add: resolveTarget_string [OF assms(1)] resolveTarget_settle_generic)
  have r: "resolveSource svc' env now (Some v) st =
              (st\<lparr>sourceQuery := v, error := Some (js ''Failed to resolve source location.''),
                   isLoadingSource := False\<rparr>, []) \<and>
            resolveTarget svc' env (Some v) st =
              (st\<lparr>targetQuery := v, error := Some (js ''Failed to resolve target location.''),
                   isLoadingTarget := False\<rparr>, [])"
    if "isl (snd (resolveLocation svc' v))"
  proof -
    from resolveLocation_rejected [OF that] obtain e where
      tv: "truthy v" and nu: "v \<noteq> JUndefined" and e: "resolveLocation svc' v = ([], Inl e)"
      by blast
    show ?thesis
      using tv nu e
      by (cases v)
         (simp_all add: resolveSource_def resolveTarget_def resolveSource_settle_def
            resolveSource_begin_def resolveTarget_settle_def resolveTarget_begin_def Let_def)
  qed
  from s t d ns nt r resolveSource_settle_generic [of env now v res st]
    resolveTarget_settle_generic [of env v res st] resolveLocation_rejects_iff [of svc' v]
  show ?thesis by blast
qed

text \<open>
  An example of the last case. The body \<^verbatim>\<open>{"valid":true,"fullName":33}\<close> makes the
  number 33 the source query and the local time the date field (the time zone is
  undefined); resolving the source again with no argument then ends with the generic
  message and issues no request.
\<close>

lemma untyped_run:
  "resolveSource (replying (Some (js ''{\"valid\":true,\"fullName\":33}''))) sampleClock sampleNow
     (Some (JStr (js ''London''))) sampleState =
     (sampleState\<lparr>sourceLocation :=
                    Some \<lparr> ianaTimezone = JUndefined, fullName = JNum (Fin 33), city = JUndefined,
                           country = JUndefined, countryCode = JUndefined, funFact = JUndefined \<rparr>,
                  sourceQuery := JNum (Fin 33),
                  selectedDate := js ''2024-06-15T13:00''\<rparr>,
      [mkRequest (js ''London'')])"
proof -
  have g: "js ''London'' \<noteq> [] \<and> \<not> length (trim (js ''London'')) < 2"
    using London_long by (auto simp: js_def)
  have "resolveLocation_try (replying (Some (js ''{\"valid\":true,\"fullName\":33}''))) (js ''London'') =
     ([mkRequest (js ''London'')],
      Inr (Some \<lparr> ianaTimezone = JUndefined, fullName = JNum (Fin 33), city = JUndefined,
                  country = JUndefined, countryCode = JUndefined, funFact = JUndefined \<rparr>))"
    by (simp add: resolveLocation_try_def replying_def textOrEmptyObject_def sampleParse_def
        getProp_def locationFields_def js_def)
  then have r: "resolveLocation (replying (Some (js ''{\"valid\":true,\"fullName\":33}''))) (JStr (js ''London'')) =
     ([mkRequest (js ''London'')],
      Inr (Some \<lparr> ianaTimezone = JUndefined, fullName = JNum (Fin 33), city = JUndefined,
                  country = JUndefined, countryCode = JUndefined, funFact = JUndefined \<rparr>))"
    using g by (simp add: resolveLocation_def)
  have i: "isoLocal (sampleParts (js ''13'')) = js ''2024-06-15T13:00''"
    by (simp add: isoLocal_def getPart_def interpolate_def sampleParts_def js_def)
  show ?thesis
    using g
    by (simp add: resolveSource_def r resolveSource_settle_def resolveSource_begin_def
        updateTimeForSource_def sampleClock_def i sampleState_def)
qed

theorem transport_failure_message_witness:
  "js ''London'' \<noteq> [] \<and> transportFails unreachable (js ''London'') \<and>
   error (fst (resolveSource unreachable sampleClock sampleNow (Some (JStr (js ''London''))) sampleState)) =
     Some (js ''Could not find location: '' @ js ''London'') \<and>
   error (fst (resolveTarget unreachable sampleClock (Some (JStr (js ''London''))) sampleState)) =
     Some (js ''Could not find location: '' @ js ''London'') \<and>
   isl (snd (resolveLocation unreachable (JNum (Fin 33)))) \<and>
   resolveSource unreachable sampleClock sampleNow (Some (JNum (Fin 33))) sampleState =
     (sampleState\<lparr>sourceQuery := JNum (Fin 33),
                  error := Some (js ''Failed to resolve source location.''),
                  isLoadingSource := False\<rparr>, [])"
proof -
  have n: "js ''London'' \<noteq> []" by (simp add: js_def)
  have a: "transportFails unreachable (js ''London'')"
    by (simp add: transportFails_def unreachable_def)
  note w = transport_failure_message [OF n a, of sampleClock sampleNow sampleState "JNum (Fin 33)" _ unreachable]
  have i: "isl (snd (resolveLocation unreachable (JNum (Fin 33))))"
    using w by simp
  from w i n a show ?thesis by blast
qed

text \<open>
  The claim as stated fails for an unreachable service: both slots show the not-found
  message, not the generic failure message of the slot.
\<close>

theorem transport_failure_counterexample:
  "transportFails unreachable (js ''London'') \<and>
   resolveSource unreachable sampleClock sampleNow (Some (JStr (js ''London''))) sampleState =
     (sampleState\<lparr>sourceQuery := JStr (js ''London''),
                  error := Some (js ''Could not find location: London'')\<rparr>,
      [mkRequest (js ''London'')]) \<and>
   resolveTarget unreachable sampleClock (Some (JStr (js ''London''))) sampleState =
     (sampleState\<lparr>targetQuery := JStr (js ''London''),
                  error := Some (js ''Could not find location: London'')\<rparr>,
      [mkRequest (js ''London'')]) \<and>
   js ''Could not find location: London'' \<noteq> js ''Failed to resolve source location.'' \<and>
   js ''Could not find location: London'' \<noteq> js ''Failed to resolve target location.''"
proof -
  have a: "transportFails unreachable (js ''London'')"
    by (simp add: transportFails_def unreachable_def)
  have g: "js ''London'' \<noteq> [] \<and> \<not> length (trim (js ''London'')) < 2"
    using London_long by (auto simp: js_def)
  have w: "resolveLocation unreachable (JStr (js ''London'')) = ([mkRequest (js ''London'')], Inr None)"
    using g by (simp add: resolveLocation_def resolveLocation_try_def) (simp add: unreachable_def)
  have m: "notFound sampleClock (JStr (js ''London'')) = js ''Could not find location: London''"
    by (simp add: notFound_def templateText_def js_def)
  have s: "resolveSource unreachable sampleClock sampleNow (Some (JStr (js ''London''))) sampleState =
     (sampleState\<lparr>sourceQuery := JStr (js ''London''),
                  error := Some (js ''Could not find location: London'')\<rparr>,
      [mkRequest (js ''London'')])"
    using g
    by (simp add: resolveSource_def w resolveSource_settle_def resolveSource_begin_def m
        sampleState_def)
  have t: "resolveTarget unreachable sampleClock (Some (JStr (js ''London''))) sampleState =
     (sampleState\<lparr>targetQuery := JStr (js ''London''),
                  error := Some (js ''Could not find location: London'')\<rparr>,
      [mkRequest (js ''London'')])"
    using g
    by (simp add: resolveTarget_def w resolveTarget_settle_def resolveTarget_begin_def m
        sampleState_def)
  have d: "js ''Could not find location: London'' \<noteq> js ''Failed to resolve source location.''"
    "js ''Could not find location: London'' \<noteq> js ''Failed to resolve target location.''"
    by (simp_all add: js_def)
  from a s t d show ?thesis by blast
qed

subsection \<open>Swapping\<close>

text \<open>
  C8 (as amended). \<^verbatim>\<open>swapLocations\<close> exchanges the two locations and the two query
  texts in one step and leaves the loading flags and the error as they are. When the
  former target location is present and the formatter accepts its time zone, the date
  field becomes the current time in that zone, pieced together from the formatter's
  parts as year-month-day, \<^verbatim>\<open>T\<close>, hour:minute; when the former target is absent or
  the formatter rejects the zone, the date field keeps its value.
\<close>

theorem swapLocations_effect:
  "swapLocations env now st =
     st\<lparr> sourceLocation := targetLocation st, targetLocation := sourceLocation st,
         sourceQuery := targetQuery st, targetQuery := sourceQuery st,
         selectedDate :=
           (case targetLocation st of
              None \<Rightarrow> selectedDate st
            | Some t \<Rightarrow>
                (case formatToParts env (ianaTimezone t) now of
                   Inl e \<Rightarrow> selectedDate st
                 | Inr parts \<Rightarrow> isoLocal parts)) \<rparr> \<and>
   (\<forall>parts y mo d h mi.
      getPart parts (js ''year'') = Some y \<and> getPart parts (js ''month'') = Some mo \<and>
      getPart parts (js ''day'') = Some d \<and> getPart parts (js ''hour'') = Some h \<and>
      getPart parts (js ''minute'') = Some mi \<longrightarrow>
      isoLocal parts = y @ js ''-'' @ mo @ js ''-'' @ d @ js ''T'' @ h @ js '':'' @ mi)"
  by (simp add: swapLocations_def updateTimeForSource_def isoLocal_def interpolate_def Let_def
      split: option.splits sum.splits)

theorem swapLocations_effect_witness:
  "swapLocations sampleClock sampleNow sampleState =
     sampleState\<lparr> sourceLocation := Some newYork, targetLocation := Some london,
       sourceQuery := JStr (js ''New York, United States''),
       targetQuery := JStr (js ''London, United Kingdom''),
       selectedDate := js ''2024-06-15T09:00'' \<rparr> \<and>
   getPart (sampleParts (js ''09'')) (js ''year'') = Some (js ''2024'') \<and>
   isoLocal (sampleParts (js ''09'')) = js ''2024-06-15T09:00''"
proof -
  let ?p = "sampleParts (js ''09'')"
  have g: "getPart ?p (js ''year'') = Some (js ''2024'') \<and> getPart ?p (js ''month'') = Some (js ''06'') \<and>
      getPart ?p (js ''day'') = Some (js ''15'') \<and> getPart ?p (js ''hour'') = Some (js ''09'') \<and>
      getPart ?p (js ''minute'') = Some (js ''00'')"
    by (simp add: getPart_def sampleParts_def js_def)
  from swapLocations_effect [of sampleClock sampleNow sampleState]
  have e: "swapLocations sampleClock sampleNow sampleState =
     sampleState\<lparr> sourceLocation := targetLocation sampleState, targetLocation := sourceLocation sampleState,
         sourceQuery := targetQuery sampleState, targetQuery := sourceQuery sampleState,
         selectedDate :=
           (case targetLocation sampleState of
              None \<Rightarrow> selectedDate sampleState
            | Some t \<Rightarrow>
                (case formatToParts sampleClock (ianaTimezone t) sampleNow of
                   Inl e \<Rightarrow> selectedDate sampleState
                 | Inr parts \<Rightarrow> isoLocal parts)) \<rparr>"
    and f: "isoLocal ?p = js ''2024'' @ js ''-'' @ js ''06'' @ js ''-'' @ js ''15'' @ js ''T'' @ js ''09'' @ js '':'' @ js ''00''"
    using g by blast+
  have f': "isoLocal ?p = js ''2024-06-15T09:00''"
    by (simp only: f) (simp add: js_def)
  have "formatToParts sampleClock (ianaTimezone newYork) sampleNow = Inr ?p"
    by (simp add: sampleClock_def newYork_def js_def)
  then have "swapLocations sampleClock sampleNow sampleState =
     sampleState\<lparr> sourceLocation := Some newYork, targetLocation := Some london,
       sourceQuery := JStr (js ''New York, United States''),
       targetQuery := JStr (js ''London, United Kingdom''),
       selectedDate := js ''2024-06-15T09:00'' \<rparr>"
    by (simp only: e) (simp add: sampleState_def f')
  with g f' show ?thesis by blast
qed

text \<open>
  The claim as stated fails when there is no target location, and when the target's
  time zone is unknown to the formatter: after the swap the date field still holds the
  value entered before.
\<close>

theorem swapLocations_counterexample:
  "targetLocation (sampleState\<lparr>targetLocation := None\<rparr>) = None \<and>
   selectedDate sampleState = js ''2024-06-15T14:00'' \<and>
   selectedDate (swapLocations sampleClock sampleNow (sampleState\<lparr>targetLocation := None\<rparr>)) =
     js ''2024-06-15T14:00'' \<and>
   sourceLocation (swapLocations sampleClock sampleNow (sampleState\<lparr>targetLocation := Some phobos\<rparr>)) =
     Some phobos \<and>
   formatToParts sampleClock (ianaTimezone phobos) sampleNow = Inl RangeError \<and>
   selectedDate (swapLocations sampleClock sampleNow (sampleState\<lparr>targetLocation := Some phobos\<rparr>)) =
     js ''2024-06-15T14:00''"
  by (simp add: swapLocations_def updateTimeForSource_def sampleState_def sampleClock_def phobos_def
      js_def)

subsection \<open>The conversion\<close>

lemma TimeClip_Some: "TimeClip v = Some t \<Longrightarrow> \<exists>x. v = Some x"
  by (cases v) (simp_all add: TimeClip_def)

lemma num_add_Some: "num_add a b = Some x \<Longrightarrow> \<exists>y z. a = Some y \<and> b = Some z \<and> x = fl (y + z)"
  by (cases a; cases b) (simp_all add: num_add_def)

lemma num_sub_Some: "num_sub a b = Some x \<Longrightarrow> \<exists>y z. a = Some y \<and> b = Some z \<and> x = fl (y - z)"
  by (cases a; cases b) (simp_all add: num_sub_def)

lemma formatDate_Inr: "formatDate env d = Inr s \<Longrightarrow> \<exists>t. d = Some t \<and> s = dateTimeFormat env t"
  by (cases d) (auto simp: formatDate_def)

lemma convert_try_Inr:
  assumes "convert_try env now src tgt dateStr = Inr r"
  shows "\<exists>d tin ttg.
     offsetMs env now src tgt = Some d \<and>
     newDate env dateStr = Some tin \<and>
     targetWallTime env now src tgt dateStr = Some ttg \<and>
     2 \<le> length (splitStr 0x54 dateStr) \<and>
     r = \<lparr> sourceTimeDisplay = dateTimeFormat env tin,
           targetTimeDisplay = dateTimeFormat env ttg,
           diffHours = toFixed1 (fl (d / (1000 * 60 * 60))),
           isNextDay = (localDate env ttg \<noteq> localDate env tin) \<rparr>"
proof -
  from assms obtain datePart timePart rest where sp: "splitStr 0x54 dateStr = datePart # timePart # rest"
    by (auto simp: convert_try_def split: list.splits)
  from assms sp obtain srcStr where s1: "toLocaleString env (ianaTimezone src) now = Inr srcStr"
    by (auto simp: convert_try_def split: sum.splits)
  from assms sp s1 obtain tgtStr where s2: "toLocaleString env (ianaTimezone tgt) now = Inr tgtStr"
    by (auto simp: convert_try_def split: sum.splits)
  have off: "offsetMs env now src tgt = diffMs env srcStr tgtStr"
    by (simp add: offsetMs_def s1 s2)
  define tw where "tw = TimeClip (num_add (getTime (newDate env dateStr)) (diffMs env srcStr tgtStr))"
  from assms sp s1 s2 obtain sd where f1: "formatDate env (newDate env dateStr) = Inr sd"
    by (auto simp: convert_try_def Let_def split: sum.splits)
  from assms sp s1 s2 f1 obtain td where f2: "formatDate env tw = Inr td"
    by (auto simp: convert_try_def Let_def tw_def split: sum.splits)
  from assms sp s1 s2 f1 f2 have r: "r = \<lparr> sourceTimeDisplay = sd, targetTimeDisplay = td,
       diffHours = number_toFixed1 (num_div (diffMs env srcStr tgtStr) (1000 * 60 * 60)),
       isNextDay = strictNotEqual (getDate env tw) (getDate env (newDate env dateStr)) \<rparr>"
    by (simp add: convert_try_def Let_def tw_def)
  from f1 obtain tin where tin: "newDate env dateStr = Some tin" "sd = dateTimeFormat env tin"
    by (auto dest: formatDate_Inr)
  from f2 obtain ttg where ttg: "tw = Some ttg" "td = dateTimeFormat env ttg"
    by (auto dest: formatDate_Inr)
  from ttg(1) obtain x where "num_add (getTime (newDate env dateStr)) (diffMs env srcStr tgtStr) = Some x"
    unfolding tw_def by (auto dest: TimeClip_Some)
  then obtain d where d: "diffMs env srcStr tgtStr = Some d"
    by (auto dest: num_add_Some)
  have tw': "targetWallTime env now src tgt dateStr = Some ttg"
    using ttg(1) by (simp add: targetWallTime_def off tw_def)
  have r': "r = \<lparr> sourceTimeDisplay = dateTimeFormat env tin,
           targetTimeDisplay = dateTimeFormat env ttg,
           diffHours = toFixed1 (fl (d / (1000 * 60 * 60))),
           isNextDay = (localDate env ttg \<noteq> localDate env tin) \<rparr>"
    by (simp add: r tin ttg d number_toFixed1_def num_div_def strictNotEqual_def getDate_def)
  have off': "offsetMs env now src tgt = Some d"
    by (simp only: off d)
  have len: "2 \<le> length (splitStr 0x54 dateStr)"
    by (simp add: sp)
  from off' tin(1) tw' len r' show ?thesis
    by blast
qed

lemma convertedResult_Some:
  assumes "convertedResult env now st = Some r"
  shows "\<exists>src tgt. sourceLocation st = Some src \<and> targetLocation st = Some tgt \<and>
          selectedDate st \<noteq> [] \<and> convert_try env now src tgt (selectedDate st) = Inr r"
  using assms
  by (auto simp: convertedResult_def split: option.splits if_splits sum.splits)

lemma offsetMs_Some:
  assumes "offsetMs env now src tgt = Some d"
  shows "\<exists>srcStr tgtStr ts tt.
     toLocaleString env (ianaTimezone src) now = Inr srcStr \<and>
     toLocaleString env (ianaTimezone tgt) now = Inr tgtStr \<and>
     newDate env srcStr = Some ts \<and> newDate env tgtStr = Some tt \<and>
     d = fl (of_int tt - of_int ts)"
  using assms
  by (auto simp: offsetMs_def diffMs_def getTime_def split: sum.splits dest!: num_sub_Some)

lemma num_sub_swap: "num_sub b a = map_option uminus (num_sub a b)"
proof (cases a; cases b)
  fix x y assume "a = Some x" "b = Some y"
  then show ?thesis using fl_minus [of "x - y"] by (simp add: num_sub_def)
qed (simp_all add: num_sub_def)

lemma offsetMs_swap: "offsetMs env now tgt src = map_option uminus (offsetMs env now src tgt)"
proof (cases "toLocaleString env (ianaTimezone src) now")
  case (Inl e)
  then show ?thesis by (simp add: offsetMs_def split: sum.splits)
next
  case src: (Inr srcStr)
  show ?thesis
  proof (cases "toLocaleString env (ianaTimezone tgt) now")
    case (Inl e)
    then show ?thesis by (simp add: offsetMs_def split: sum.splits)
  next
    case (Inr tgtStr)
    with src show ?thesis
      using num_sub_swap [of "getTime (newDate env srcStr)" "getTime (newDate env tgtStr)"]
      by (simp add: offsetMs_def diffMs_def)
  qed
qed

lemmas sample_defs = sampleClock_def sampleState_def sampleNow_def london_def newYork_def
  sampleDateParse_def sampleFormat_def sampleParts_def

lemmas number_defs = newDate_def TimeClip_def toInteger_def getTime_def num_sub_def num_add_def
  num_div_def diffMs_def formatDate_def getDate_def strictNotEqual_def number_toFixed1_def

lemma sample_conversion: "convertedResult sampleClock sampleNow sampleState = Some sampleConversion"
  by (simp add: convertedResult_def convert_try_def sample_defs number_defs Let_def
      fl_numeral fl_neg_numeral toFixed1_minus5 sampleConversion_def js_def)

lemma sample_swap: "swapLocations sampleClock sampleNow sampleState =
    sampleState\<lparr> sourceLocation := Some newYork, targetLocation := Some london,
       sourceQuery := JStr (js ''New York, United States''),
       targetQuery := JStr (js ''London, United Kingdom''),
       selectedDate := js ''2024-06-15T09:00'' \<rparr>"
  by (simp add: sample_defs swapLocations_def updateTimeForSource_def isoLocal_def getPart_def
      interpolate_def js_def)

lemma sample_reverse:
  "convertedResult sampleClock sampleNow (swapLocations sampleClock sampleNow sampleState) = Some sampleReverse"
  by (simp add: sample_swap)
     (simp add: convertedResult_def convert_try_def sample_defs number_defs Let_def
      fl_numeral fl_neg_numeral toFixed1_5 sampleReverse_def js_def)

lemma late_conversion: "convertedResult sampleClock sampleNow lateState = Some lateConversion"
  by (simp add: convertedResult_def convert_try_def sample_defs number_defs Let_def lateState_def
      fl_numeral fl_neg_numeral toFixed1_5 lateConversion_def js_def)

lemma splitStr_nonempty: "splitStr sep s \<noteq> []"
  by (induction s) (auto split: list.splits)

lemma splitStr_two: "sep \<in> set s \<Longrightarrow> \<exists>a b rest. splitStr sep s = a # b # rest"
proof (induction s)
  case Nil
  then show ?case by simp
next
  case (Cons c cs)
  show ?case
  proof (cases "c = sep")
    case True
    then show ?thesis using splitStr_nonempty [of sep cs] by (cases "splitStr sep cs") simp_all
  next
    case False
    with Cons.prems have "sep \<in> set cs" by auto
    from Cons.IH [OF this] obtain a b rest where "splitStr sep cs = a # b # rest" by blast
    with False show ?thesis by simp
  qed
qed

lemma newDate_eq:
  "newDate env s =
     (case Date_parse env s of
        None \<Rightarrow> None
      | Some t \<Rightarrow> if 8640000000000000 < \<bar>t\<bar> then None else Some t)"
proof (cases "Date_parse env s")
  case None
  then show ?thesis by (simp add: newDate_def TimeClip_def)
next
  case (Some t)
  have "(rat_of_int 8640000000000000 < rat_of_int \<bar>t\<bar>) = (8640000000000000 < \<bar>t\<bar>)"
    by (rule of_int_less_iff)
  then have "(8640000000000000 < \<bar>rat_of_int t\<bar>) = (8640000000000000 < \<bar>t\<bar>)"
    by (simp only: of_int_abs of_int_numeral)
  with Some show ?thesis by (simp add: newDate_def TimeClip_def toInteger_def)
qed

lemma convert_try_explicit:
  assumes "0x54 \<in> set dateStr"
    and "toLocaleString env (ianaTimezone src) now = Inr srcStr"
    and "toLocaleString env (ianaTimezone tgt) now = Inr tgtStr"
  shows "convert_try env now src tgt dateStr =
     (case (newDate env dateStr, newDate env srcStr, newDate env tgtStr) of
        (Some t, Some a, Some b) \<Rightarrow>
          if 8640000000000000 < \<bar>fl (of_int t + fl (of_int b - of_int a))\<bar> then Inl RangeError
          else Inr \<lparr> sourceTimeDisplay = dateTimeFormat env t,
                 targetTimeDisplay =
                   dateTimeFormat env (toInteger (fl (of_int t + fl (of_int b - of_int a)))),
                 diffHours = toFixed1 (fl (fl (of_int b - of_int a) / (1000 * 60 * 60))),
                 isNextDay =
                   (localDate env (toInteger (fl (of_int t + fl (of_int b - of_int a)))) \<noteq>
                    localDate env t) \<rparr>
      | _ \<Rightarrow> Inl RangeError)"
proof -
  from splitStr_two [OF assms(1)] obtain p q rest where sp: "splitStr 0x54 dateStr = p # q # rest"
    by blast
  show ?thesis
    by (simp add: convert_try_def sp assms(2,3) Let_def diffMs_def getTime_def num_sub_def
        num_add_def num_div_def formatDate_def getDate_def strictNotEqual_def number_toFixed1_def
        TimeClip_def split: option.splits)
qed

lemma convert_try_no_T:
  assumes "0x54 \<notin> set dateStr"
  shows "convert_try env now src tgt dateStr = Inl TypeError"
  by (simp add: convert_try_def splitStr_none [OF assms])

text \<open>
  C5 (as amended). \<^verbatim>\<open>convertedResult\<close> is null exactly when the source location is
  absent, the target location is absent, the date string is empty, the date string
  holds no \<^verbatim>\<open>T\<close>, the renderer rejects the time zone of one of the locations, the
  host's Date parser rejects the date string or one of the two rendered strings (or
  gives a time value out of range), or the computed target instant leaves the range
  of time values. Whenever the \<^verbatim>\<open>try\<close> block throws the result is null, and a result
  that is not null holds all four fields as the full computation gives them. A date
  string that is not of the form \<^verbatim>\<open>YYYY-MM-DDTHH:mm\<close> but holds a \<^verbatim>\<open>T\<close> and is accepted by
  the host's Date parser gives a result.
\<close>

theorem convertedResult_null_iff:
  "(convertedResult env now st = None \<longleftrightarrow>
      (case (sourceLocation st, targetLocation st) of
         (Some src, Some tgt) \<Rightarrow>
           selectedDate st = [] \<or> 0x54 \<notin> set (selectedDate st) \<or>
           (case (toLocaleString env (ianaTimezone src) now,
                  toLocaleString env (ianaTimezone tgt) now) of
              (Inr srcStr, Inr tgtStr) \<Rightarrow>
                (case (Date_parse env (selectedDate st), Date_parse env srcStr,
                       Date_parse env tgtStr) of
                   (Some t, Some a, Some b) \<Rightarrow>
                     8640000000000000 < \<bar>t\<bar> \<or> 8640000000000000 < \<bar>a\<bar> \<or>
                     8640000000000000 < \<bar>b\<bar> \<or>
                     8640000000000000 < \<bar>fl (of_int t + fl (of_int b - of_int a))\<bar>
                 | _ \<Rightarrow> True)
            | _ \<Rightarrow> True)
       | _ \<Rightarrow> True)) \<and>
   (conversionThrows env now st \<longrightarrow> convertedResult env now st = None) \<and>
   (\<forall>r. convertedResult env now st = Some r \<longrightarrow>
      (\<exists>src tgt srcStr tgtStr t a b.
         sourceLocation st = Some src \<and> targetLocation st = Some tgt \<and>
         toLocaleString env (ianaTimezone src) now = Inr srcStr \<and>
         toLocaleString env (ianaTimezone tgt) now = Inr tgtStr \<and>
         Date_parse env (selectedDate st) = Some t \<and>
         Date_parse env srcStr = Some a \<and> Date_parse env tgtStr = Some b \<and>
         r = \<lparr> sourceTimeDisplay = dateTimeFormat env t,
               targetTimeDisplay =
                 dateTimeFormat env (toInteger (fl (of_int t + fl (of_int b - of_int a)))),
               diffHours = toFixed1 (fl (fl (of_int b - of_int a) / (1000 * 60 * 60))),
               isNextDay =
                 (localDate env (toInteger (fl (of_int t + fl (of_int b - of_int a)))) \<noteq>
                  localDate env t) \<rparr>))"
proof (cases "sourceLocation st")
  case None
  then show ?thesis by (simp add: convertedResult_def conversionThrows_def)
next
  case src: (Some src)
  show ?thesis
  proof (cases "targetLocation st")
    case None
    then show ?thesis by (simp add: convertedResult_def conversionThrows_def src)
  next
    case tgt: (Some tgt)
    show ?thesis
    proof (cases "0x54 \<in> set (selectedDate st)")
      case False
      then show ?thesis
        by (simp add: convertedResult_def conversionThrows_def src tgt convert_try_no_T)
    next
      case T: True
      then have ne: "selectedDate st \<noteq> []" by auto
      show ?thesis
      proof (cases "toLocaleString env (ianaTimezone src) now")
        case (Inl e)
        then show ?thesis
          using T ne
          by (auto simp: convertedResult_def conversionThrows_def src tgt convert_try_def
              split: list.splits)
      next
        case s1: (Inr srcStr)
        show ?thesis
        proof (cases "toLocaleString env (ianaTimezone tgt) now")
          case (Inl e)
          then show ?thesis
            using T ne s1
            by (auto simp: convertedResult_def conversionThrows_def src tgt convert_try_def
                split: list.splits)
        next
          case s2: (Inr tgtStr)
          note c = convert_try_explicit [OF T s1 s2]
          show ?thesis
            using T ne
            by (auto simp: convertedResult_def conversionThrows_def src tgt s1 s2 c newDate_eq
                split: option.splits if_splits)
        qed
      qed
    qed
  qed
qed

theorem convertedResult_null_iff_witness:
  "0x54 \<notin> set (js ''tomorrow'') \<and>
   convertedResult sampleClock sampleNow (sampleState\<lparr>selectedDate := js ''tomorrow''\<rparr>) = None \<and>
   Date_parse sampleClock (js ''2024-06-15Tnoon'') = None \<and>
   convertedResult sampleClock sampleNow (sampleState\<lparr>selectedDate := js ''2024-06-15Tnoon''\<rparr>) = None \<and>
   conversionThrows sampleClock sampleNow (sampleState\<lparr>targetLocation := Some phobos\<rparr>) \<and>
   convertedResult sampleClock sampleNow (sampleState\<lparr>targetLocation := Some phobos\<rparr>) = None \<and>
   convertedResult sampleClock sampleNow (sampleState\<lparr>sourceLocation := None\<rparr>) = None \<and>
   convertedResult sampleClock sampleNow (sampleState\<lparr>targetLocation := None\<rparr>) = None \<and>
   convertedResult sampleClock sampleNow (sampleState\<lparr>selectedDate := []\<rparr>) = None \<and>
   convertedResult sampleClock sampleNow sampleState \<noteq> None \<and>
   convertedResult sampleClock sampleNow sampleState = Some sampleConversion \<and>
   (\<exists>src tgt srcStr tgtStr t a b.
      sourceLocation sampleState = Some src \<and> targetLocation sampleState = Some tgt \<and>
      toLocaleString sampleClock (ianaTimezone src) sampleNow = Inr srcStr \<and>
      toLocaleString sampleClock (ianaTimezone tgt) sampleNow = Inr tgtStr \<and>
      Date_parse sampleClock (selectedDate sampleState) = Some t \<and>
      Date_parse sampleClock srcStr = Some a \<and> Date_parse sampleClock tgtStr = Some b \<and>
      sampleConversion =
        \<lparr> sourceTimeDisplay = dateTimeFormat sampleClock t,
          targetTimeDisplay =
            dateTimeFormat sampleClock (toInteger (fl (of_int t + fl (of_int b - of_int a)))),
          diffHours = toFixed1 (fl (fl (of_int b - of_int a) / (1000 * 60 * 60))),
          isNextDay =
            (localDate sampleClock (toInteger (fl (of_int t + fl (of_int b - of_int a)))) \<noteq>
             localDate sampleClock t) \<rparr>)"
proof -
  let ?c = "convertedResult sampleClock sampleNow"
  have t1: "0x54 \<notin> set (js ''tomorrow'')"
    by (simp add: js_def)
  have n1: "?c (sampleState\<lparr>selectedDate := js ''tomorrow''\<rparr>) = None"
    using convertedResult_null_iff
      [of sampleClock sampleNow "sampleState\<lparr>selectedDate := js ''tomorrow''\<rparr>", THEN conjunct1] t1
    by (simp add: sampleState_def)
  have t2: "Date_parse sampleClock (js ''2024-06-15Tnoon'') = None"
    by (simp add: sampleClock_def sampleDateParse_def js_def)
  have n2: "?c (sampleState\<lparr>selectedDate := js ''2024-06-15Tnoon''\<rparr>) = None"
    using convertedResult_null_iff
      [of sampleClock sampleNow "sampleState\<lparr>selectedDate := js ''2024-06-15Tnoon''\<rparr>",
        THEN conjunct1] t2
    by (simp add: sampleState_def split: sum.splits)
  have t3: "conversionThrows sampleClock sampleNow (sampleState\<lparr>targetLocation := Some phobos\<rparr>)"
    by (simp add: conversionThrows_def convert_try_def sample_defs phobos_def js_def)
  have n3: "?c (sampleState\<lparr>targetLocation := Some phobos\<rparr>) = None"
    using convertedResult_null_iff
      [of sampleClock sampleNow "sampleState\<lparr>targetLocation := Some phobos\<rparr>",
        THEN conjunct2, THEN conjunct1] t3
    by simp
  have n4: "?c (sampleState\<lparr>sourceLocation := None\<rparr>) = None"
    using convertedResult_null_iff
      [of sampleClock sampleNow "sampleState\<lparr>sourceLocation := None\<rparr>", THEN conjunct1]
    by simp
  have n5: "?c (sampleState\<lparr>targetLocation := None\<rparr>) = None"
    using convertedResult_null_iff
      [of sampleClock sampleNow "sampleState\<lparr>targetLocation := None\<rparr>", THEN conjunct1]
    by (simp split: option.splits)
  have n6: "?c (sampleState\<lparr>selectedDate := []\<rparr>) = None"
    using convertedResult_null_iff
      [of sampleClock sampleNow "sampleState\<lparr>selectedDate := []\<rparr>", THEN conjunct1]
    by (simp split: option.splits)
  have p: "?c sampleState \<noteq> None"
    by (simp add: sample_conversion)
  from convertedResult_null_iff [of sampleClock sampleNow sampleState] sample_conversion
  have e: "\<exists>src tgt srcStr tgtStr t a b.
      sourceLocation sampleState = Some src \<and> targetLocation sampleState = Some tgt \<and>
      toLocaleString sampleClock (ianaTimezone src) sampleNow = Inr srcStr \<and>
      toLocaleString sampleClock (ianaTimezone tgt) sampleNow = Inr tgtStr \<and>
      Date_parse sampleClock (selectedDate sampleState) = Some t \<and>
      Date_parse sampleClock srcStr = Some a \<and> Date_parse sampleClock tgtStr = Some b \<and>
      sampleConversion =
        \<lparr> sourceTimeDisplay = dateTimeFormat sampleClock t,
          targetTimeDisplay =
            dateTimeFormat sampleClock (toInteger (fl (of_int t + fl (of_int b - of_int a)))),
          diffHours = toFixed1 (fl (fl (of_int b - of_int a) / (1000 * 60 * 60))),
          isNextDay =
            (localDate sampleClock (toInteger (fl (of_int t + fl (of_int b - of_int a)))) \<noteq>
             localDate sampleClock t) \<rparr>"
    by blast
  from t1 n1 t2 n2 t3 n3 n4 n5 n6 p sample_conversion e show ?thesis
    by blast
qed

text \<open>
  The claim as stated fails for a date string that is not of the form
  \<^verbatim>\<open>YYYY-MM-DDTHH:mm\<close>, holds a \<^verbatim>\<open>T\<close> and is accepted by the Date parser, such as the
  same instant with seconds, milliseconds and a zone, or as a UTC string: the
  conversion gives the full result.
\<close>

theorem malformed_date_counterexample:
  "wellFormedDate (js ''2024-06-15T14:00'') \<and>
   \<not> wellFormedDate (js ''2024-06-15T14:00:00.000Z'') \<and>
   convertedResult sampleClock sampleNow
     (sampleState\<lparr>selectedDate := js ''2024-06-15T14:00:00.000Z''\<rparr>) = Some sampleConversion \<and>
   \<not> wellFormedDate (js ''Sat, 15 Jun 2024 14:00:00 GMT'') \<and>
   convertedResult sampleClock sampleNow
     (sampleState\<lparr>selectedDate := js ''Sat, 15 Jun 2024 14:00:00 GMT''\<rparr>) = Some sampleConversion"
proof -
  have a: "wellFormedDate (js ''2024-06-15T14:00'')"
    by (simp add: wellFormedDate_def isDigit_def js_def)
  have b: "\<not> wellFormedDate (js ''2024-06-15T14:00:00.000Z'')"
    by (simp add: wellFormedDate_def js_def)
  have c: "\<not> wellFormedDate (js ''Sat, 15 Jun 2024 14:00:00 GMT'')"
    by (simp add: wellFormedDate_def js_def)
  have d: "convertedResult sampleClock sampleNow
     (sampleState\<lparr>selectedDate := js ''2024-06-15T14:00:00.000Z''\<rparr>) = Some sampleConversion"
    by (simp add: convertedResult_def convert_try_def sample_defs number_defs Let_def
      fl_numeral fl_neg_numeral toFixed1_minus5 sampleConversion_def js_def)
  have e: "convertedResult sampleClock sampleNow
     (sampleState\<lparr>selectedDate := js ''Sat, 15 Jun 2024 14:00:00 GMT''\<rparr>) = Some sampleConversion"
    by (simp add: convertedResult_def convert_try_def sample_defs number_defs Let_def
      fl_numeral fl_neg_numeral toFixed1_minus5 sampleConversion_def js_def)
  from a b c d e show ?thesis by blast
qed

text \<open>
  C4. When a conversion gives a result, the offset differential of the current instant
  is a number \<open>d\<close> of milliseconds, target minus source, and \<^verbatim>\<open>diffHours\<close> is the
  quotient \<open>d / 3600000\<close> printed with one fraction digit: the string denotes a signed
  number of tenths that is within a twentieth of the quotient as the engine computes
  it, hence within a twentieth and one rounding error of the exact quotient.
\<close>

theorem diffHours_rounded:
  assumes "convertedResult env now st = Some r"
    and "sourceLocation st = Some src" and "targetLocation st = Some tgt"
  shows "\<exists>d v. offsetMs env now src tgt = Some d \<and>
           (\<exists>srcStr tgtStr ts tt.
              toLocaleString env (ianaTimezone src) now = Inr srcStr \<and>
              toLocaleString env (ianaTimezone tgt) now = Inr tgtStr \<and>
              newDate env srcStr = Some ts \<and> newDate env tgtStr = Some tt \<and>
              d = fl (of_int tt - of_int ts)) \<and>
           diffHours r = toFixed1 (fl (d / (1000 * 60 * 60))) \<and>
           readFixed1 (diffHours r) = Some v \<and>
           \<bar>v - fl (d / (1000 * 60 * 60))\<bar> \<le> 1 / 20 \<and>
           \<bar>v - d / (1000 * 60 * 60)\<bar> \<le> 1 / 20 + \<bar>d / (1000 * 60 * 60)\<bar> / 2 ^ 53 \<and>
           (\<exists>n :: int. v = of_int n / 10)"
proof -
  from convertedResult_Some [OF assms(1)] assms(2,3)
  have "convert_try env now src tgt (selectedDate st) = Inr r" by auto
  from convert_try_Inr [OF this] obtain d tin ttg where d: "offsetMs env now src tgt = Some d"
    and req: "r = \<lparr> sourceTimeDisplay = dateTimeFormat env tin,
           targetTimeDisplay = dateTimeFormat env ttg,
           diffHours = toFixed1 (fl (d / (1000 * 60 * 60))),
           isNextDay = (localDate env ttg \<noteq> localDate env tin) \<rparr>"
    by blast
  have r: "diffHours r = toFixed1 (fl (d / (1000 * 60 * 60)))"
    by (simp add: req)
  define h where "h = fl (d / (1000 * 60 * 60))"
  define v :: rat where "v = (if h < 0 then - 1 else 1) * (of_nat (tenths h) / 10)"
  have rd: "readFixed1 (toFixed1 h) = Some v"
    by (simp only: v_def readFixed1_toFixed1)
  have near: "\<bar>v - h\<bar> \<le> 1 / 20"
    using tenths_near [of h] by (auto simp: v_def abs_if split: if_splits)
  have "v = of_int ((if h < 0 then - 1 else 1) * int (tenths h)) / 10"
    by (simp add: v_def)
  then have "\<exists>n :: int. v = of_int n / 10" ..
  then obtain n :: int where n: "v = of_int n / 10" ..
  have rv: "readFixed1 (diffHours r) = Some v"
    using rd by (simp only: r h_def)
  have "\<bar>v - d / (1000 * 60 * 60)\<bar> \<le> \<bar>v - h\<bar> + \<bar>h - d / (1000 * 60 * 60)\<bar>"
    by (simp only: abs_le_iff abs_if split: if_splits) linarith
  with near fl_error [of "d / (1000 * 60 * 60)"]
  have exact: "\<bar>v - d / (1000 * 60 * 60)\<bar> \<le> 1 / 20 + \<bar>d / (1000 * 60 * 60)\<bar> / 2 ^ 53"
    unfolding h_def by linarith
  with d offsetMs_Some [OF d] r rv near n show ?thesis
    unfolding h_def by blast
qed

theorem diffHours_rounded_witness:
  "convertedResult sampleClock sampleNow sampleState = Some sampleConversion \<and>
   sourceLocation sampleState = Some london \<and> targetLocation sampleState = Some newYork \<and>
   diffHours sampleConversion = js ''-5.0'' \<and>
   (\<exists>d v. offsetMs sampleClock sampleNow london newYork = Some d \<and>
           (\<exists>srcStr tgtStr ts tt.
              toLocaleString sampleClock (ianaTimezone london) sampleNow = Inr srcStr \<and>
              toLocaleString sampleClock (ianaTimezone newYork) sampleNow = Inr tgtStr \<and>
              newDate sampleClock srcStr = Some ts \<and> newDate sampleClock tgtStr = Some tt \<and>
              d = fl (of_int tt - of_int ts)) \<and>
           diffHours sampleConversion = toFixed1 (fl (d / (1000 * 60 * 60))) \<and>
           readFixed1 (diffHours sampleConversion) = Some v \<and>
           \<bar>v - fl (d / (1000 * 60 * 60))\<bar> \<le> 1 / 20 \<and>
           \<bar>v - d / (1000 * 60 * 60)\<bar> \<le> 1 / 20 + \<bar>d / (1000 * 60 * 60)\<bar> / 2 ^ 53 \<and>
           (\<exists>n :: int. v = of_int n / 10))"
proof -
  have s: "sourceLocation sampleState = Some london" and t: "targetLocation sampleState = Some newYork"
    by (simp_all add: sampleState_def)
  have v: "diffHours sampleConversion = js ''-5.0''"
    by (simp add: sampleConversion_def)
  from diffHours_rounded [OF sample_conversion s t] sample_conversion s t v
  show ?thesis by blast
qed

text \<open>
  C6. When a conversion gives a result, the input wall-clock value and the computed
  target wall-clock value are valid Dates, and \<^verbatim>\<open>isNextDay\<close> is true exactly when
  their days of the month differ.
\<close>

theorem isNextDay_iff:
  assumes "convertedResult env now st = Some r"
    and "sourceLocation st = Some src" and "targetLocation st = Some tgt"
  shows "\<exists>tin ttg. newDate env (selectedDate st) = Some tin \<and>
           targetWallTime env now src tgt (selectedDate st) = Some ttg \<and>
           (isNextDay r \<longleftrightarrow> localDate env ttg \<noteq> localDate env tin)"
proof -
  from convertedResult_Some [OF assms(1)] assms(2,3)
  have "convert_try env now src tgt (selectedDate st) = Inr r" by auto
  from convert_try_Inr [OF this] obtain d tin ttg where
    tin: "newDate env (selectedDate st) = Some tin"
    and ttg: "targetWallTime env now src tgt (selectedDate st) = Some ttg"
    and req: "r = \<lparr> sourceTimeDisplay = dateTimeFormat env tin,
           targetTimeDisplay = dateTimeFormat env ttg,
           diffHours = toFixed1 (fl (d / (1000 * 60 * 60))),
           isNextDay = (localDate env ttg \<noteq> localDate env tin) \<rparr>"
    by blast
  have "isNextDay r \<longleftrightarrow> localDate env ttg \<noteq> localDate env tin"
    by (simp add: req)
  with tin ttg show ?thesis by blast
qed

theorem isNextDay_iff_witness:
  "convertedResult sampleClock sampleNow lateState = Some lateConversion \<and>
   sourceLocation lateState = Some newYork \<and> targetLocation lateState = Some london \<and>
   isNextDay lateConversion \<and>
   (\<exists>tin ttg. newDate sampleClock (selectedDate lateState) = Some tin \<and>
           targetWallTime sampleClock sampleNow newYork london (selectedDate lateState) = Some ttg \<and>
           (isNextDay lateConversion \<longleftrightarrow> localDate sampleClock ttg \<noteq> localDate sampleClock tin))"
proof -
  have s: "sourceLocation lateState = Some newYork" and t: "targetLocation lateState = Some london"
    by (simp_all add: lateState_def)
  have n: "isNextDay lateConversion" by (simp add: lateConversion_def)
  from isNextDay_iff [OF late_conversion s t] late_conversion s t n
  show ?thesis by blast
qed

text \<open>
  C7. When the conversion from A to B and, at the same instant, the conversion from B
  to A (the locations swapped) both give a result, the two \<^verbatim>\<open>diffHours\<close> are the
  prints of a number and of its negation: equal magnitude, opposite sign.
\<close>

theorem diffHours_antisymmetric:
  assumes "convertedResult env now st = Some r" and "convertedResult env now st' = Some r'"
    and "sourceLocation st' = targetLocation st" and "targetLocation st' = sourceLocation st"
  shows "\<exists>h. diffHours r = toFixed1 h \<and> diffHours r' = toFixed1 (- h) \<and>
           readFixed1 (diffHours r') = map_option uminus (readFixed1 (diffHours r))"
proof -
  from convertedResult_Some [OF assms(1)] obtain src tgt where
    st: "sourceLocation st = Some src" "targetLocation st = Some tgt"
    and c: "convert_try env now src tgt (selectedDate st) = Inr r" by auto
  from convertedResult_Some [OF assms(2)] assms(3,4) st
  have c': "convert_try env now tgt src (selectedDate st') = Inr r'" by auto
  from convert_try_Inr [OF c] obtain d tin ttg where d: "offsetMs env now src tgt = Some d"
    and req: "r = \<lparr> sourceTimeDisplay = dateTimeFormat env tin,
           targetTimeDisplay = dateTimeFormat env ttg,
           diffHours = toFixed1 (fl (d / (1000 * 60 * 60))),
           isNextDay = (localDate env ttg \<noteq> localDate env tin) \<rparr>"
    by blast
  from convert_try_Inr [OF c'] obtain d' tin' ttg' where d': "offsetMs env now tgt src = Some d'"
    and req': "r' = \<lparr> sourceTimeDisplay = dateTimeFormat env tin',
           targetTimeDisplay = dateTimeFormat env ttg',
           diffHours = toFixed1 (fl (d' / (1000 * 60 * 60))),
           isNextDay = (localDate env ttg' \<noteq> localDate env tin') \<rparr>"
    by blast
  have r: "diffHours r = toFixed1 (fl (d / (1000 * 60 * 60)))"
    by (simp add: req)
  have r': "diffHours r' = toFixed1 (fl (d' / (1000 * 60 * 60)))"
    by (simp add: req')
  from d d' have "d' = - d" using offsetMs_swap [of env now tgt src] by simp
  then have h': "fl (d' / (1000 * 60 * 60)) = - fl (d / (1000 * 60 * 60))"
    using fl_minus [of "d / (1000 * 60 * 60)"] by simp
  define h where "h = fl (d / (1000 * 60 * 60))"
  have "readFixed1 (toFixed1 (- h)) = map_option uminus (readFixed1 (toFixed1 h))"
    by (auto simp: readFixed1_toFixed1 tenths_minus tenths_zero)
  with r r' h' have "diffHours r = toFixed1 h \<and> diffHours r' = toFixed1 (- h) \<and>
           readFixed1 (diffHours r') = map_option uminus (readFixed1 (diffHours r))"
    unfolding h_def by simp
  then show ?thesis ..
qed

theorem diffHours_antisymmetric_witness:
  "convertedResult sampleClock sampleNow sampleState = Some sampleConversion \<and>
   convertedResult sampleClock sampleNow (swapLocations sampleClock sampleNow sampleState) = Some sampleReverse \<and>
   sourceLocation (swapLocations sampleClock sampleNow sampleState) = targetLocation sampleState \<and>
   targetLocation (swapLocations sampleClock sampleNow sampleState) = sourceLocation sampleState \<and>
   diffHours sampleConversion = js ''-5.0'' \<and> diffHours sampleReverse = js ''5.0'' \<and>
   (\<exists>h. diffHours sampleConversion = toFixed1 h \<and> diffHours sampleReverse = toFixed1 (- h) \<and>
        readFixed1 (diffHours sampleReverse) = map_option uminus (readFixed1 (diffHours sampleConversion)))"
proof -
  have a: "sourceLocation (swapLocations sampleClock sampleNow sampleState) = targetLocation sampleState"
    and b: "targetLocation (swapLocations sampleClock sampleNow sampleState) = sourceLocation sampleState"
    by (simp_all add: sample_swap) (simp_all add: sampleState_def)
  have c: "diffHours sampleConversion = js ''-5.0''" and d: "diffHours sampleReverse = js ''5.0''"
    by (simp_all add: sampleConversion_def sampleReverse_def)
  from diffHours_antisymmetric [OF sample_conversion sample_reverse a b] sample_conversion
    sample_reverse a b c d
  show ?thesis by blast
qed

end
